theory Spec2Isabelle
  imports Complex_Main
begin

section \<open>Values shared by the trainer and the losses\<close>

text \<open>
  Python exceptions are values. Every \<^verbatim>\<open>raise\<close>, failed \<^verbatim>\<open>assert\<close> and failing
  library call of the source is a branch that returns one of these.
\<close>

datatype error =
    AssertionError
  | RuntimeError
  | TypeError
  | AttributeError
  | UnboundLocalError
  | ZeroDivisionError
  | IndexError
  | CollaboratorError string

text \<open>
  A Python float is a finite value, an infinity or NaN. Finite values are the rationals
  they denote (every double is a rational, and comparing two doubles compares those
  rationals); rounding of arithmetic results is not modelled.
\<close>

datatype pyfloat = NaN | NegInf | Fin rat | PosInf

text \<open>Python's \<^verbatim>\<open>a > b\<close> on floats: false as soon as one side is NaN.\<close>

fun fgt :: "pyfloat \<Rightarrow> pyfloat \<Rightarrow> bool" where
  "fgt NaN _ = False"
| "fgt _ NaN = False"
| "fgt NegInf _ = False"
| "fgt _ PosInf = False"
| "fgt PosInf _ = True"
| "fgt (Fin a) NegInf = True"
| "fgt (Fin a) (Fin b) = (b < a)"

text \<open>
  Division of two finite floats. A zero divisor raises nothing: the quotient is an
  infinity or NaN (signed zeros are not modelled).
\<close>

definition fdiv :: "rat \<Rightarrow> rat \<Rightarrow> pyfloat" where
  "fdiv a b = (if b \<noteq> 0 then Fin (a / b) else if a = 0 then NaN else if 0 < a then PosInf else NegInf)"

text \<open>
  Python's builtin \<^verbatim>\<open>max(a, b)\<close>: the first argument is kept unless the second
  compares greater.
\<close>

definition py_max :: "pyfloat \<Rightarrow> pyfloat \<Rightarrow> pyfloat" where
  "py_max a b = (if fgt b a then b else a)"

section \<open>The trainer (src/trainer/trainerunet3d.py)\<close>

text \<open>Messages handed to the logger collaborator, in the order of the calls.\<close>

datatype log_msg =
    ChangingLearningRate rat rat
  | SavingNewBest pyfloat
  | EarlyStoppingMsg int
  | MaxIterationsExceeded int
  | ValidatingMsg int
  | ValidationFinished
  | BestAccuracyMsg pyfloat
  | TrainingStats
  | LoadingCheckpoint
  | CheckpointLoaded int pyfloat int
  | SendingModel

text \<open>
  The dictionary that \<^verbatim>\<open>_save_checkpoint\<close> hands to \<^verbatim>\<open>utils.save_checkpoint\<close>.
  The model's and the optimizer's \<^verbatim>\<open>state_dict\<close> are the mode-independent parameters;
  of the optimizer only the learning rates of its parameter groups are modelled.
\<close>

record checkpoint =
  ck_epoch :: int
  ck_num_iterations :: int
  ck_best_val_accuracy :: pyfloat
  ck_optimizer_lrs :: "rat list"
  ck_max_num_epochs :: int
  ck_max_num_iterations :: int
  ck_validate_after_iters :: int
  ck_log_after_iters :: int
  ck_max_patience :: int
  ck_patience :: int

text \<open>Calls made on the model, the optimizer and the checkpoint writer, in order.\<close>

datatype call =
    ModelTrain
  | ModelEval
  | ModelForward bool
  | ZeroGrad
  | Backward rat
  | OptimizerStep
  | SaveCheckpoint checkpoint bool

text \<open>
  The attributes of \<^verbatim>\<open>UNet3DTrainer\<close> set by \<^verbatim>\<open>__init__\<close>. \<open>model_training\<close> is the
  mode flag of \<^verbatim>\<open>self.model\<close>, \<open>param_groups\<close> holds the \<^verbatim>\<open>'lr'\<close> entry of each of
  \<^verbatim>\<open>self.optimizer.param_groups\<close>, \<open>logger\<close> the messages given to \<^verbatim>\<open>self.logger.info\<close>,
  \<open>stdout\<close> what \<^verbatim>\<open>print\<close> wrote and \<open>calls\<close> the collaborator calls so far.
\<close>

record trainer =
  model_training :: bool
  param_groups :: "rat list"
  max_num_epochs :: int
  max_num_iterations :: int
  validate_after_iters :: int
  log_after_iters :: int
  best_val_accuracy :: pyfloat
  num_iterations :: int
  num_epoch :: int
  max_patience :: int
  patience :: int
  logger :: "log_msg list"
  stdout :: "int list"
  calls :: "call list"

subsection \<open>Learning-rate decay and early stopping\<close>

text \<open>
  The local helper \<^verbatim>\<open>get_lr\<close> returns from inside its loop: the rate of the first
  parameter group, or \<^verbatim>\<open>None\<close> when there is no group.
\<close>

definition get_lr :: "rat list \<Rightarrow> rat option" where
  "get_lr groups = (case groups of [] \<Rightarrow> None | lr # _ \<Rightarrow> Some lr)"

text \<open>
  \<^verbatim>\<open>_adjust_learning_rate(decay_rate=0.1)\<close>. \<^verbatim>\<open>None > 0\<close> is a TypeError, a rate that is
  not positive fails the assertion; otherwise every group receives the one new rate.
\<close>

definition adjust_learning_rate :: "rat \<Rightarrow> trainer \<Rightarrow> (error + unit) \<times> trainer" where
  "adjust_learning_rate decay_rate st =
     (case get_lr (param_groups st) of
        None \<Rightarrow> (Inl TypeError, st)
      | Some old_lr \<Rightarrow>
          if \<not> 0 < old_lr then (Inl AssertionError, st)
          else
            let new_lr = decay_rate * old_lr in
            (Inr (),
             st\<lparr>logger := logger st @ [ChangingLearningRate old_lr new_lr],
                param_groups := map (\<lambda>_. new_lr) (param_groups st)\<rparr>))"

text \<open>\<^verbatim>\<open>_check_early_stopping(best_model_found)\<close>.\<close>

definition check_early_stopping :: "bool \<Rightarrow> trainer \<Rightarrow> (error + bool) \<times> trainer" where
  "check_early_stopping best_model_found st =
     (if best_model_found then
        (let st1 = st\<lparr>patience := max_patience st\<rparr> in
         (Inr False, st1\<lparr>stdout := stdout st1 @ [patience st1]\<rparr>))
      else
        (let st1 = st\<lparr>patience := patience st - 1\<rparr> in
         if patience st1 \<le> 0 then (Inr True, st1)
         else if patience st1 = max_patience st1 div 2 then
           (case adjust_learning_rate (1 / 10) st1 of
              (Inl e, st2) \<Rightarrow> (Inl e, st2)
            | (Inr _, st2) \<Rightarrow> (Inr False, st2\<lparr>stdout := stdout st2 @ [patience st2]\<rparr>))
         else (Inr False, st1\<lparr>stdout := stdout st1 @ [patience st1]\<rparr>)))"

text \<open>
  A run of calls, as the training loop makes them one validation after the other; an
  exception ends the run.
\<close>

fun run_checks :: "bool list \<Rightarrow> trainer \<Rightarrow> (error + bool list) \<times> trainer" where
  "run_checks [] st = (Inr [], st)"
| "run_checks (b # bs) st =
     (case check_early_stopping b st of
        (Inl e, st1) \<Rightarrow> (Inl e, st1)
      | (Inr r, st1) \<Rightarrow>
          (case run_checks bs st1 of
             (Inl e, st2) \<Rightarrow> (Inl e, st2)
           | (Inr rs, st2) \<Rightarrow> (Inr (r # rs), st2)))"

text \<open>The decay events of a trainer: the learning-rate messages its logger received.\<close>

fun is_decay :: "log_msg \<Rightarrow> bool" where
  "is_decay (ChangingLearningRate _ _) = True"
| "is_decay _ = False"

definition decay_events :: "trainer \<Rightarrow> nat" where
  "decay_events st = length (filter is_decay (logger st))"

subsection \<open>Best validation accuracy\<close>

text \<open>\<^verbatim>\<open>_is_best_val_accuracy(val_accuracy)\<close>.\<close>

definition is_best_val_accuracy :: "pyfloat \<Rightarrow> trainer \<Rightarrow> bool \<times> trainer" where
  "is_best_val_accuracy val_accuracy st =
     (let is_best = fgt val_accuracy (best_val_accuracy st);
          st1 = (if is_best then st\<lparr>logger := logger st @ [SavingNewBest val_accuracy]\<rparr> else st)
      in (is_best, st1\<lparr>best_val_accuracy := py_max val_accuracy (best_val_accuracy st1)\<rparr>))"

text \<open>Feeding a sequence of validation accuracies, collecting the answers.\<close>

fun feed_accuracies :: "pyfloat list \<Rightarrow> trainer \<Rightarrow> bool list \<times> trainer" where
  "feed_accuracies [] st = ([], st)"
| "feed_accuracies (v # vs) st =
     (case is_best_val_accuracy v st of
        (b, st1) \<Rightarrow> (case feed_accuracies vs st1 of (bs, st2) \<Rightarrow> (b # bs, st2)))"

subsection \<open>Checkpoints\<close>

text \<open>
  \<^verbatim>\<open>_save_checkpoint(is_best)\<close> builds the dictionary and gives it to
  \<^verbatim>\<open>utils.save_checkpoint\<close>, the checkpoint writer.
\<close>

definition checkpoint_dict :: "trainer \<Rightarrow> checkpoint" where
  "checkpoint_dict st =
     \<lparr>ck_epoch = num_epoch st + 1,
      ck_num_iterations = num_iterations st,
      ck_best_val_accuracy = best_val_accuracy st,
      ck_optimizer_lrs = param_groups st,
      ck_max_num_epochs = max_num_epochs st,
      ck_max_num_iterations = max_num_iterations st,
      ck_validate_after_iters = validate_after_iters st,
      ck_log_after_iters = log_after_iters st,
      ck_max_patience = max_patience st,
      ck_patience = patience st\<rparr>"

definition save_checkpoint :: "bool \<Rightarrow> trainer \<Rightarrow> trainer" where
  "save_checkpoint is_best st = st\<lparr>calls := calls st @ [SaveCheckpoint (checkpoint_dict st) is_best]\<rparr>"

text \<open>
  \<^verbatim>\<open>__init__\<close>, with the arguments that \<^verbatim>\<open>from_checkpoint\<close> passes: the model (its mode
  flag), the optimizer (its rates), the counters and the logger.
\<close>

definition init :: "bool \<Rightarrow> rat list \<Rightarrow> int \<Rightarrow> int \<Rightarrow> int \<Rightarrow> int \<Rightarrow> int \<Rightarrow> int
    \<Rightarrow> pyfloat \<Rightarrow> int \<Rightarrow> int \<Rightarrow> log_msg list \<Rightarrow> trainer" where
  "init model optimizer max_num_epochs' max_num_iterations' max_patience' patience'
        validate_after_iters' log_after_iters' best_val_accuracy' num_iterations' num_epoch'
        logger' =
     \<lparr>model_training = model, param_groups = optimizer,
      max_num_epochs = max_num_epochs', max_num_iterations = max_num_iterations',
      validate_after_iters = validate_after_iters', log_after_iters = log_after_iters',
      best_val_accuracy = best_val_accuracy', num_iterations = num_iterations',
      num_epoch = num_epoch', max_patience = max_patience', patience = patience',
      logger = logger' @ [SendingModel], stdout = [], calls = []\<rparr>"

text \<open>
  \<^verbatim>\<open>from_checkpoint\<close>. \<open>state\<close> is the dictionary that \<^verbatim>\<open>utils.load_checkpoint\<close> returned
  (that function is not among the source files; the model and the optimizer are taken as
  it left them). The default \<^verbatim>\<open>logger=None\<close> has no \<^verbatim>\<open>info\<close>. The saved patience and
  maximal patience are overwritten by 100 before the trainer is built.
\<close>

definition from_checkpoint :: "checkpoint \<Rightarrow> bool \<Rightarrow> rat list \<Rightarrow> int \<Rightarrow> int
    \<Rightarrow> log_msg list option \<Rightarrow> error + trainer" where
  "from_checkpoint state model optimizer validate_after_iters' log_after_iters' logger' =
     (case logger' of
        None \<Rightarrow> Inl AttributeError
      | Some lg \<Rightarrow>
          let lg1 = lg @ [LoadingCheckpoint];
              lg2 = lg1 @ [CheckpointLoaded (ck_epoch state) (ck_best_val_accuracy state)
                             (ck_num_iterations state)];
              state1 = state\<lparr>ck_patience := 100\<rparr>;
              state2 = state1\<lparr>ck_max_patience := 100\<rparr>
          in Inr (init model optimizer (ck_max_num_epochs state2) (ck_max_num_iterations state2)
                    (ck_max_patience state2) (ck_patience state2)
                    validate_after_iters' log_after_iters'
                    (ck_best_val_accuracy state2) (ck_num_iterations state2) (ck_epoch state2)
                    lg2))"

subsection \<open>Training and validation\<close>

text \<open>
  The collaborators of the loops. \<open>model_call\<close> is \<^verbatim>\<open>self.model(input)\<close>, of whose
  result \<^verbatim>\<open>_, y, up\<close> the main output and the list of auxiliary outputs are used; a
  loss is a number. \<^verbatim>\<open>utils.RunningAcc\<close> is not among the source files and is taken
  as a parameter: a fresh accumulator, its \<^verbatim>\<open>update(A, B, I)\<close> and the quotient
  \<^verbatim>\<open>mean_dice / count\<close> that validation returns. \<open>val_loader\<close> is \<^verbatim>\<open>self.loaders['val']\<close>:
  the batches it yields, each a tuple of tensors. Any collaborator may raise.
\<close>

record ('t, 'acc) collaborators =
  model_call :: "'t \<Rightarrow> error + ('t \<times> 't list)"
  loss_criterion_1 :: "'t \<Rightarrow> 't \<Rightarrow> error + rat"
  accuracy_criterion :: "'t \<Rightarrow> 't \<Rightarrow> error + (rat \<times> rat \<times> rat)"
  torch_cat :: "'t \<Rightarrow> 't \<Rightarrow> error + 't"
  running_acc_new :: "'acc"
  running_acc_update :: "rat \<times> rat \<times> rat \<Rightarrow> 'acc \<Rightarrow> error + 'acc"
  running_acc_mean :: "'acc \<Rightarrow> error + pyfloat"
  val_loader :: "'t list list"

text \<open>
  The local variables of a loop that the batch tuple is unpacked into. They live for the
  whole call of \<^verbatim>\<open>train\<close> or \<^verbatim>\<open>validate\<close>; \<open>None\<close> is a name not yet assigned.
\<close>

record 't locals =
  l_input :: "'t option"
  l_target :: "'t option"
  l_target_aux :: "'t option"

definition no_locals :: "'t locals" where
  "no_locals = \<lparr>l_input = None, l_target = None, l_target_aux = None\<rparr>"

text \<open>The loop of \<^verbatim>\<open>_forward_pass\<close> over the auxiliary outputs, each loss weighted by 0.4.\<close>

fun deep_supervision :: "('t \<Rightarrow> 't \<Rightarrow> error + rat) \<Rightarrow> 't list \<Rightarrow> 't \<Rightarrow> rat \<Rightarrow> error + rat" where
  "deep_supervision crit [] target_aux loss = Inr loss"
| "deep_supervision crit (u # up) target_aux loss =
     (case crit u target_aux of
        Inl e \<Rightarrow> Inl e
      | Inr l \<Rightarrow> deep_supervision crit up target_aux (loss + l * (4 / 10)))"

text \<open>\<^verbatim>\<open>_forward_pass(input, target, target_)\<close>: returns the main output and the loss.\<close>

definition forward_pass :: "('t, 'acc) collaborators \<Rightarrow> 't \<Rightarrow> 't \<Rightarrow> 't \<Rightarrow> trainer
    \<Rightarrow> (error + 't \<times> rat) \<times> trainer" where
  "forward_pass env inp tgt tgt_aux st =
     (let st1 = st\<lparr>calls := calls st @ [ModelForward (model_training st)]\<rparr> in
      case model_call env inp of
        Inl e \<Rightarrow> (Inl e, st1)
      | Inr (y, up) \<Rightarrow>
          (case deep_supervision (loss_criterion_1 env) up tgt_aux 0 of
             Inl e \<Rightarrow> (Inl e, st1)
           | Inr loss \<Rightarrow>
               (case loss_criterion_1 env y tgt of
                  Inl e \<Rightarrow> (Inl e, st1)
                | Inr l \<Rightarrow> (Inr (y, loss + l), st1))))"

text \<open>
  The call \<^verbatim>\<open>self._forward_pass(input, target, target_)\<close> of both loops: reading a local
  name that no batch has assigned yet raises UnboundLocalError before the call is made.
\<close>

definition call_forward_pass :: "('t, 'acc) collaborators \<Rightarrow> 't locals \<Rightarrow> trainer
    \<Rightarrow> (error + 't \<times> rat) \<times> trainer" where
  "call_forward_pass env loc st =
     (case l_input loc of
        None \<Rightarrow> (Inl UnboundLocalError, st)
      | Some inp \<Rightarrow>
          (case l_target loc of
             None \<Rightarrow> (Inl UnboundLocalError, st)
           | Some tgt \<Rightarrow>
               (case l_target_aux loc of
                  None \<Rightarrow> (Inl UnboundLocalError, st)
                | Some tgt_aux \<Rightarrow> forward_pass env inp tgt tgt_aux st)))"

text \<open>The three \<^verbatim>\<open>if len(t) == ...\<close> statements of \<^verbatim>\<open>validate\<close>.\<close>

definition unpack_validate :: "'t list \<Rightarrow> 't locals \<Rightarrow> 't locals" where
  "unpack_validate t loc =
     (let loc1 = (if length t = 2
                  then loc\<lparr>l_input := Some (t ! 0), l_target := Some (t ! 1)\<rparr> else loc);
          loc2 = (if length t = 3
                  then loc1\<lparr>l_input := Some (t ! 0), l_target := Some (t ! 1),
                            l_target_aux := Some (t ! 2)\<rparr> else loc1)
      in (if length t = 4
          then loc2\<lparr>l_input := Some (t ! 0), l_target := Some (t ! 1),
                    l_target_aux := Some (t ! 2)\<rparr> else loc2))"

text \<open>The body of the \<^verbatim>\<open>for\<close> loop of \<^verbatim>\<open>validate\<close>, over the batches that are left.\<close>

fun validate_loop :: "('t, 'acc) collaborators \<Rightarrow> 't list list \<Rightarrow> 't locals \<Rightarrow> 'acc \<Rightarrow> trainer
    \<Rightarrow> (error + 'acc) \<times> trainer" where
  "validate_loop env [] loc acc st = (Inr acc, st)"
| "validate_loop env (t # ts) loc acc st =
     (let loc1 = unpack_validate t loc in
      case call_forward_pass env loc1 st of
        (Inl e, st1) \<Rightarrow> (Inl e, st1)
      | (Inr (output, loss), st1) \<Rightarrow>
          (case l_target loc1 of
             None \<Rightarrow> (Inl UnboundLocalError, st1)
           | Some tgt \<Rightarrow>
               (case accuracy_criterion env output tgt of
                  Inl e \<Rightarrow> (Inl e, st1)
                | Inr abi \<Rightarrow>
                    (case running_acc_update env abi acc of
                       Inl e \<Rightarrow> (Inl e, st1)
                     | Inr acc1 \<Rightarrow> validate_loop env ts loc1 acc1 st1))))"

text \<open>
  \<^verbatim>\<open>validate(val_loader)\<close>: the model is put in evaluation mode, the \<^verbatim>\<open>try\<close> block runs
  the loop and computes the mean, and the \<^verbatim>\<open>finally\<close> clause puts the model back in
  training mode whatever the block did.
\<close>

definition validate :: "('t, 'acc) collaborators \<Rightarrow> 't list list \<Rightarrow> trainer
    \<Rightarrow> (error + pyfloat) \<times> trainer" where
  "validate env loader st =
     (let st0 = st\<lparr>logger := logger st @ [ValidatingMsg (num_epoch st)]\<rparr>;
          st1 = st0\<lparr>model_training := False, calls := calls st0 @ [ModelEval]\<rparr>;
          tried =
            (case validate_loop env loader no_locals (running_acc_new env) st1 of
               (Inl e, st2) \<Rightarrow> (Inl e, st2)
             | (Inr acc, st2) \<Rightarrow>
                 (case running_acc_mean env acc of
                    Inl e \<Rightarrow> (Inl e, st2)
                  | Inr mean \<Rightarrow>
                      (Inr mean,
                       st2\<lparr>logger := logger st2
                              @ [ValidationFinished, BestAccuracyMsg (best_val_accuracy st2)]\<rparr>)))
      in (fst tried,
          (snd tried)\<lparr>model_training := True, calls := calls (snd tried) @ [ModelTrain]\<rparr>))"

text \<open>The three \<^verbatim>\<open>if len(t) == ...\<close> statements of \<^verbatim>\<open>train\<close>.\<close>

definition unpack_train :: "('t, 'acc) collaborators \<Rightarrow> 't list \<Rightarrow> 't locals \<Rightarrow> error + 't locals" where
  "unpack_train env t loc =
     (let loc1 = (if length t = 2
                  then loc\<lparr>l_input := Some (t ! 0), l_target := Some (t ! 1)\<rparr> else loc);
          loc2 = (if length t = 3
                  then loc1\<lparr>l_input := Some (t ! 0), l_target := Some (t ! 1),
                            l_target_aux := Some (t ! 2)\<rparr> else loc1)
      in (if length t = 6 then
            (case torch_cat env (t ! 0) (t ! 2) of
               Inl e \<Rightarrow> Inl e
             | Inr input1 \<Rightarrow>
                 (case torch_cat env (t ! 1) (t ! 3) of
                    Inl e \<Rightarrow> Inl e
                  | Inr target1 \<Rightarrow>
                      (case torch_cat env input1 (t ! 4) of
                         Inl e \<Rightarrow> Inl e
                       | Inr input2 \<Rightarrow>
                           (case torch_cat env target1 (t ! 5) of
                              Inl e \<Rightarrow> Inl e
                            | Inr target2 \<Rightarrow>
                                Inr (loc2\<lparr>l_input := Some input2, l_target := Some target2\<rparr>)))))
          else Inr loc2))"

text \<open>How one pass through the body of the training loop ends.\<close>

datatype ('t, 'acc) step = Continue "'t locals" 'acc | Return bool

text \<open>The end of the loop body: the check of \<^verbatim>\<open>max_num_iterations\<close>.\<close>

definition check_max_iterations :: "'t locals \<Rightarrow> 'acc \<Rightarrow> trainer
    \<Rightarrow> (error + ('t, 'acc) step) \<times> trainer" where
  "check_max_iterations loc acc st =
     (if max_num_iterations st < num_iterations st
      then (Inr (Return True),
            st\<lparr>logger := logger st @ [MaxIterationsExceeded (max_num_iterations st)]\<rparr>)
      else (Inr (Continue loc acc), st))"

text \<open>
  The body of the \<^verbatim>\<open>for\<close> loop of \<^verbatim>\<open>train\<close> for the batch \<open>t\<close>. The running average of
  the loss only feeds the text of the log line and is left out.
\<close>

definition train_body :: "('t, 'acc) collaborators \<Rightarrow> 't list \<Rightarrow> 't locals \<Rightarrow> 'acc \<Rightarrow> trainer
    \<Rightarrow> (error + ('t, 'acc) step) \<times> trainer" where
  "train_body env t loc acc st =
     (case unpack_train env t loc of
        Inl e \<Rightarrow> (Inl e, st)
      | Inr loc1 \<Rightarrow>
          (case call_forward_pass env loc1 st of
             (Inl e, st1) \<Rightarrow> (Inl e, st1)
           | (Inr (output, loss), st1) \<Rightarrow>
               (let st2 = st1\<lparr>calls := calls st1 @ [ZeroGrad, Backward loss, OptimizerStep],
                               num_iterations := num_iterations st1 + 1\<rparr> in
                case (case l_target loc1 of
                        None \<Rightarrow> Inl UnboundLocalError
                      | Some tgt \<Rightarrow> accuracy_criterion env output tgt) of
                  Inl e \<Rightarrow> (Inl e, st2)
                | Inr abi \<Rightarrow>
                    (case running_acc_update env abi acc of
                       Inl e \<Rightarrow> (Inl e, st2)
                     | Inr acc1 \<Rightarrow>
                         if log_after_iters st2 = 0 then (Inl ZeroDivisionError, st2)
                         else
                           (let st3 = (if num_iterations st2 mod log_after_iters st2 = 0
                                       then st2\<lparr>logger := logger st2 @ [TrainingStats]\<rparr>
                                       else st2) in
                            if validate_after_iters st3 = 0 then (Inl ZeroDivisionError, st3)
                            else if num_iterations st3 mod validate_after_iters st3 = 0 then
                              (case validate env (val_loader env) st3 of
                                 (Inl e, st4) \<Rightarrow> (Inl e, st4)
                               | (Inr val_accuracy, st4) \<Rightarrow>
                                   (case is_best_val_accuracy val_accuracy st4 of
                                      (is_best, st5) \<Rightarrow>
                                        (case check_early_stopping is_best
                                                (save_checkpoint is_best st5) of
                                           (Inl e, st6) \<Rightarrow> (Inl e, st6)
                                         | (Inr stop, st6) \<Rightarrow>
                                             if stop then
                                               (Inr (Return True),
                                                st6\<lparr>logger := logger st6
                                                      @ [EarlyStoppingMsg (max_patience st6)]\<rparr>)
                                             else check_max_iterations loc1 acc1 st6)))
                            else check_max_iterations loc1 acc1 st3)))))"

fun train_loop :: "('t, 'acc) collaborators \<Rightarrow> 't list list \<Rightarrow> 't locals \<Rightarrow> 'acc \<Rightarrow> trainer
    \<Rightarrow> (error + bool) \<times> trainer" where
  "train_loop env [] loc acc st = (Inr False, st)"
| "train_loop env (t # ts) loc acc st =
     (case train_body env t loc acc st of
        (Inl e, st1) \<Rightarrow> (Inl e, st1)
      | (Inr (Return b), st1) \<Rightarrow> (Inr b, st1)
      | (Inr (Continue loc1 acc1), st1) \<Rightarrow> train_loop env ts loc1 acc1 st1)"

text \<open>\<^verbatim>\<open>train(train_loader)\<close>: one epoch. The result says whether to terminate.\<close>

definition train :: "('t, 'acc) collaborators \<Rightarrow> 't list list \<Rightarrow> trainer
    \<Rightarrow> (error + bool) \<times> trainer" where
  "train env train_loader st =
     train_loop env train_loader no_locals (running_acc_new env)
       (st\<lparr>model_training := True, calls := calls st @ [ModelTrain]\<rparr>)"

text \<open>
  \<^verbatim>\<open>fit\<close>: \<^verbatim>\<open>range(self.num_epoch, self.max_num_epochs)\<close> is evaluated once, so the number
  of passes is fixed at entry; each pass trains on \<^verbatim>\<open>self.loaders['train']\<close>.
\<close>

fun fit_loop :: "('t, 'acc) collaborators \<Rightarrow> 't list list \<Rightarrow> nat \<Rightarrow> trainer
    \<Rightarrow> (error + unit) \<times> trainer" where
  "fit_loop env train_loader 0 st = (Inr (), st)"
| "fit_loop env train_loader (Suc k) st =
     (case train env train_loader st of
        (Inl e, st1) \<Rightarrow> (Inl e, st1)
      | (Inr should_terminate, st1) \<Rightarrow>
          if should_terminate then (Inr (), st1)
          else fit_loop env train_loader k (st1\<lparr>num_epoch := num_epoch st1 + 1\<rparr>))"

definition fit :: "('t, 'acc) collaborators \<Rightarrow> 't list list \<Rightarrow> trainer \<Rightarrow> (error + unit) \<times> trainer" where
  "fit env train_loader st =
     fit_loop env train_loader (nat (max_num_epochs st - num_epoch st)) st"

section \<open>The losses (src/losses/losses.py)\<close>

subsection \<open>Loss objects and the factory\<close>

text \<open>
  The objects that \<^verbatim>\<open>get_loss_criterion\<close> can return, with the attributes their
  constructors store: a class weight (\<^verbatim>\<open>None\<close> or a vector), an \<^verbatim>\<open>ignore_index\<close>
  (\<^verbatim>\<open>None\<close> or an integer), and for the Dice family \<^verbatim>\<open>epsilon\<close> and the choice of
  sigmoid normalization. \<^verbatim>\<open>FocalLoss\<close> accepts an \<^verbatim>\<open>ignore_index\<close> and does not store
  it. \<open>Object\<close> is any other object, given by the names of its attributes.
\<close>

datatype loss =
    BCEWithLogitsLoss
  | CrossEntropyLoss "rat list option" "int option"
  | WeightedCrossEntropyLoss "rat list option" "int option"
  | PixelWiseCrossEntropyLoss "rat list option" "int option"
  | GeneralizedDiceLoss rat "rat list option" "int option" bool
  | DiceLoss rat "rat list option" "int option" bool
  | FocalLoss "rat list option" int
  | EntropyLoss rat "rat list option" "int option" bool
  | IgnoreIndexLossWrapper loss "int option"
  | Object "string list"

text \<open>
  \<^verbatim>\<open>hasattr(loss_criterion, 'ignore_index')\<close>. Of torch's two classes,
  \<^verbatim>\<open>nn.CrossEntropyLoss\<close> has the attribute and \<^verbatim>\<open>nn.BCEWithLogitsLoss\<close> has not; the
  classes of the file have it where \<^verbatim>\<open>__init__\<close> assigns \<^verbatim>\<open>self.ignore_index\<close>.
\<close>

fun has_ignore_index :: "loss \<Rightarrow> bool" where
  "has_ignore_index BCEWithLogitsLoss = False"
| "has_ignore_index (CrossEntropyLoss _ _) = True"
| "has_ignore_index (WeightedCrossEntropyLoss _ _) = True"
| "has_ignore_index (PixelWiseCrossEntropyLoss _ _) = True"
| "has_ignore_index (GeneralizedDiceLoss _ _ _ _) = True"
| "has_ignore_index (DiceLoss _ _ _ _) = True"
| "has_ignore_index (FocalLoss _ _) = False"
| "has_ignore_index (EntropyLoss _ _ _ _) = True"
| "has_ignore_index (IgnoreIndexLossWrapper _ _) = True"
| "has_ignore_index (Object names) = (''ignore_index'' \<in> set names)"

text \<open>\<^verbatim>\<open>IgnoreIndexLossWrapper.__init__(loss_criterion, ignore_index)\<close>.\<close>

definition IgnoreIndexLossWrapper_init :: "loss \<Rightarrow> int option \<Rightarrow> error + loss" where
  "IgnoreIndexLossWrapper_init loss_criterion ignore_index =
     (if has_ignore_index loss_criterion then Inl RuntimeError
      else Inr (IgnoreIndexLossWrapper loss_criterion ignore_index))"

definition SUPPORTED_LOSSES :: "string list" where
  "SUPPORTED_LOSSES =
     [''ce'', ''bce'', ''wce'', ''pce'', ''dice'', ''gdl'', ''EntropyLoss'', ''focal'']"

text \<open>
  \<^verbatim>\<open>get_loss_criterion(loss_str, weight=None, ignore_index=None)\<close>. The constructors are
  called with their defaults: \<^verbatim>\<open>epsilon = 1e-5\<close>, sigmoid normalization, \<^verbatim>\<open>gamma = 2\<close>.
\<close>

definition get_loss_criterion :: "string \<Rightarrow> rat list option \<Rightarrow> int option \<Rightarrow> error + loss" where
  "get_loss_criterion loss_str weight ignore_index =
     (if loss_str \<notin> set SUPPORTED_LOSSES then Inl AssertionError
      else if loss_str = ''bce'' then
        (if ignore_index = None then Inr BCEWithLogitsLoss
         else IgnoreIndexLossWrapper_init BCEWithLogitsLoss ignore_index)
      else if loss_str = ''ce'' then
        (let ignore_index1 = (if ignore_index = None then Some (- 100) else ignore_index)
         in Inr (CrossEntropyLoss weight ignore_index1))
      else if loss_str = ''wce'' then
        (let ignore_index1 = (if ignore_index = None then Some (- 100) else ignore_index)
         in Inr (WeightedCrossEntropyLoss weight ignore_index1))
      else if loss_str = ''pce'' then Inr (PixelWiseCrossEntropyLoss weight ignore_index)
      else if loss_str = ''gdl'' then
        Inr (GeneralizedDiceLoss (1 / 100000) weight ignore_index True)
      else if loss_str = ''dice'' then Inr (DiceLoss (1 / 100000) weight ignore_index True)
      else if loss_str = ''focal'' then Inr (FocalLoss weight 2)
      else Inr (EntropyLoss (1 / 100000) weight ignore_index True))"

subsection \<open>Tensors\<close>

text \<open>
  A torch tensor: its sizes, its strides, and its elements in logical (row-major)
  order. The strides are kept because \<^verbatim>\<open>view\<close> consults them; the elements are the
  finite values they denote.
\<close>

record 'a tensor =
  shape :: "nat list"
  stride :: "nat list"
  data :: "'a list"

definition numel :: "'a tensor \<Rightarrow> nat" where
  "numel t = prod_list (shape t)"

text \<open>The position of a multi-index in row-major order, and the multi-index of a position.\<close>

fun ravel :: "nat list \<Rightarrow> nat list \<Rightarrow> nat" where
  "ravel (d # ds) (i # is) = i * prod_list ds + ravel ds is"
| "ravel _ _ = 0"

fun unravel :: "nat list \<Rightarrow> nat \<Rightarrow> nat list" where
  "unravel [] k = []"
| "unravel (d # ds) k = (k div prod_list ds) # unravel ds (k mod prod_list ds)"

fun contiguous_strides :: "nat list \<Rightarrow> nat list" where
  "contiguous_strides [] = []"
| "contiguous_strides (d # ds) = prod_list (map (max 1) ds) # contiguous_strides ds"

text \<open>A freshly allocated tensor with the given sizes and elements.\<close>

definition contiguous :: "nat list \<Rightarrow> 'a list \<Rightarrow> 'a tensor" where
  "contiguous shp xs = \<lparr>shape = shp, stride = contiguous_strides shp, data = xs\<rparr>"

text \<open>\<^verbatim>\<open>torch.zeros(shape)\<close>.\<close>

definition zeros :: "nat list \<Rightarrow> rat tensor" where
  "zeros shp = contiguous shp (replicate (prod_list shp) 0)"

text \<open>\<^verbatim>\<open>tensor.unsqueeze(0)\<close>: a new first axis of size 1.\<close>

definition unsqueeze0 :: "'a tensor \<Rightarrow> 'a tensor" where
  "unsqueeze0 t =
     t\<lparr>shape := 1 # shape t,
       stride := (case (shape t, stride t) of (d # _, s # _) \<Rightarrow> d * s | _ \<Rightarrow> 1) # stride t\<rparr>"

text \<open>
  \<^verbatim>\<open>self.scatter_(axis, index, val)\<close> with a scalar \<open>val\<close>: for every position
  \<open>(i, j, k, ...)\<close> of \<open>index\<close>, the element of \<open>self\<close> at that position with the
  coordinate of \<open>axis\<close> replaced by the value of \<open>index\<close> there is set to \<open>val\<close>
  (for axis 1: \<^verbatim>\<open>self[i][index[i][j][k]][k] = val\<close>). torch requires as many axes in
  \<open>index\<close> as in \<open>self\<close>, no axis of \<open>index\<close> other than \<open>axis\<close> longer than in
  \<open>self\<close>, and index values within the axis.
\<close>

definition scatter_inplace :: "nat \<Rightarrow> int tensor \<Rightarrow> 'a \<Rightarrow> 'a tensor \<Rightarrow> error + 'a tensor" where
  "scatter_inplace axis index val self =
     (if \<not> axis < length (shape self) then Inl IndexError
      else if length (shape index) \<noteq> length (shape self) then Inl RuntimeError
      else if numel index = 0 then Inr self
      else if list_ex (\<lambda>d. d \<noteq> axis \<and> shape self ! d < shape index ! d) [0..<length (shape self)]
        then Inl RuntimeError
      else if list_ex (\<lambda>v. v < 0 \<or> int (shape self ! axis) \<le> v) (data index) then Inl RuntimeError
      else Inr (self\<lparr>data :=
                  fold (\<lambda>k d. d[ravel (shape self)
                                   ((unravel (shape index) k)[axis := nat (data index ! k)]) := val])
                       [0..<numel index] (data self)\<rparr>))"

text \<open>
  \<^verbatim>\<open>tensor.expand(shape)\<close>: an axis of size 1 is repeated, any other axis must have
  the requested size.
\<close>

definition expand :: "nat list \<Rightarrow> 'a tensor \<Rightarrow> error + 'a tensor" where
  "expand shp t =
     (if length shp \<noteq> length (shape t) then Inl RuntimeError
      else if list_ex (\<lambda>d. shape t ! d \<noteq> shp ! d \<and> shape t ! d \<noteq> 1) [0..<length shp]
        then Inl RuntimeError
      else Inr \<lparr>shape = shp,
                stride = map (\<lambda>d. if shape t ! d = shp ! d then stride t ! d else 0) [0..<length shp],
                data = map (\<lambda>k. data t ! ravel (shape t)
                                    (map (\<lambda>d. if shape t ! d = shp ! d then unravel shp k ! d else 0)
                                         [0..<length shp]))
                           [0..<prod_list shp]\<rparr>)"

text \<open>
  \<^verbatim>\<open>tensor.permute(axes)\<close>: axis \<open>i\<close> of the result is axis \<open>axes ! i\<close> of the
  argument; sizes and strides are permuted, no element moves in memory.
\<close>

fun index_of :: "nat list \<Rightarrow> nat \<Rightarrow> nat" where
  "index_of [] j = 0"
| "index_of (a # as) j = (if a = j then 0 else Suc (index_of as j))"

definition source_index :: "nat list \<Rightarrow> nat list \<Rightarrow> nat list" where
  "source_index axes idx = map (\<lambda>j. idx ! index_of axes j) [0..<length axes]"

definition permute :: "nat list \<Rightarrow> 'a tensor \<Rightarrow> error + 'a tensor" where
  "permute axes t =
     (if length axes \<noteq> length (shape t) \<or> \<not> distinct axes
         \<or> list_ex (\<lambda>a. length (shape t) \<le> a) axes then Inl RuntimeError
      else
        let shape1 = map (\<lambda>a. shape t ! a) axes in
        Inr \<lparr>shape = shape1,
             stride = map (\<lambda>a. stride t ! a) axes,
             data = map (\<lambda>k. data t ! ravel (shape t) (source_index axes (unravel shape1 k)))
                        [0..<prod_list shape1]\<rparr>)"

text \<open>
  \<^verbatim>\<open>tensor.view(...)\<close> never copies: it succeeds only if strides for the new sizes
  exist over the same memory. torch decides this by walking the old axes from the last
  to the first, merging neighbours while \<open>stride[d-1] = size[d] * stride[d]\<close> (axes of
  size 1 merge with anything), and fitting the new axes into each merged chunk.
  \<open>stride_chunks\<close> is that walk on the reversed lists; \<open>None\<close> is torch's RuntimeError
  "view size is not compatible with input tensor's size and stride".
\<close>

fun consume_view :: "nat list \<Rightarrow> nat \<Rightarrow> nat \<Rightarrow> nat \<Rightarrow> nat list \<Rightarrow> nat list \<times> nat \<times> nat list" where
  "consume_view [] base tensor_numel view_numel newstride = ([], view_numel, newstride)"
| "consume_view (v # vs) base tensor_numel view_numel newstride =
     (if view_numel < tensor_numel \<or> v = 1
      then consume_view vs base tensor_numel (view_numel * v) ((view_numel * base) # newstride)
      else (v # vs, view_numel, newstride))"

fun stride_chunks :: "(nat \<times> nat) list \<Rightarrow> nat list \<Rightarrow> nat \<Rightarrow> nat \<Rightarrow> nat \<Rightarrow> nat list
    \<Rightarrow> nat list option" where
  "stride_chunks [] view base tensor_numel view_numel newstride =
     (if view = [] then Some newstride else None)"
| "stride_chunks ((size_d, stride_d) # rest) view base tensor_numel view_numel newstride =
     (let tensor_numel1 = tensor_numel * size_d in
      if rest = [] \<or> (fst (hd rest) \<noteq> 1 \<and> snd (hd rest) \<noteq> tensor_numel1 * base) then
        (case consume_view view base tensor_numel1 view_numel newstride of
           (view1, view_numel1, newstride1) \<Rightarrow>
             if view_numel1 \<noteq> tensor_numel1 then None
             else if rest = [] then stride_chunks rest view1 base tensor_numel1 view_numel1 newstride1
             else stride_chunks rest view1 (snd (hd rest)) 1 1 newstride1)
      else stride_chunks rest view base tensor_numel1 view_numel newstride)"

definition compute_stride :: "nat list \<Rightarrow> nat list \<Rightarrow> nat list \<Rightarrow> nat list option" where
  "compute_stride oldshape oldstride newshape =
     (if oldshape = [] then Some (map (\<lambda>_. 1) newshape)
      else if prod_list oldshape = 0 then
        (if oldshape = newshape then Some oldstride else Some (contiguous_strides newshape))
      else stride_chunks (rev (zip oldshape oldstride)) (rev newshape) (last oldstride) 1 1 [])"

text \<open>\<^verbatim>\<open>tensor.view(C, -1)\<close>: \<open>C\<close> rows, the second size inferred from the element count.\<close>

definition view_rows :: "nat \<Rightarrow> 'a tensor \<Rightarrow> error + 'a tensor" where
  "view_rows C t =
     (if C = 0 \<or> numel t mod C \<noteq> 0 then Inl RuntimeError
      else
        let shape1 = [C, numel t div C] in
        case compute_stride (shape t) (stride t) shape1 of
          None \<Rightarrow> Inl RuntimeError
        | Some stride1 \<Rightarrow> Inr \<lparr>shape = shape1, stride = stride1, data = data t\<rparr>)"

text \<open>
  An elementwise operation on two tensors of one shape, and on two vectors with
  broadcasting of a vector of length 1.
\<close>

definition elementwise :: "('a \<Rightarrow> 'b \<Rightarrow> 'c) \<Rightarrow> 'a tensor \<Rightarrow> 'b tensor \<Rightarrow> 'c tensor" where
  "elementwise f a b = \<lparr>shape = shape a, stride = stride a, data = map2 f (data a) (data b)\<rparr>"

definition broadcast :: "('a \<Rightarrow> 'b \<Rightarrow> 'c) \<Rightarrow> 'a list \<Rightarrow> 'b list \<Rightarrow> error + 'c list" where
  "broadcast f xs ys =
     (if length xs = length ys then Inr (map2 f xs ys)
      else if length xs = 1 then Inr (map (f (hd xs)) ys)
      else if length ys = 1 then Inr (map (\<lambda>x. f x (hd ys)) xs)
      else Inl RuntimeError)"

text \<open>The rows of a matrix, and \<^verbatim>\<open>matrix.sum(-1)\<close>.\<close>

definition rows :: "'a tensor \<Rightarrow> 'a list list" where
  "rows t = map (\<lambda>c. take (shape t ! 1) (drop (c * (shape t ! 1)) (data t))) [0..<shape t ! 0]"

definition sum_last :: "rat tensor \<Rightarrow> rat list" where
  "sum_last t = map sum_list (rows t)"

text \<open>
  Reductions along axis 1, the channel axis: for every position of the other axes, the
  values along the channels; \<^verbatim>\<open>tensor.sum(1)\<close>; and \<^verbatim>\<open>tensor.argmax(1)\<close>, the first
  index of a maximal value. Both results are listed in row-major order.
\<close>

definition insert_axis1 :: "nat \<Rightarrow> nat list \<Rightarrow> nat list" where
  "insert_axis1 c idx = (case idx of [] \<Rightarrow> [c] | n # rest \<Rightarrow> n # c # rest)"

definition drop_axis1 :: "nat list \<Rightarrow> nat list" where
  "drop_axis1 shp = (case shp of n # c # rest \<Rightarrow> n # rest | _ \<Rightarrow> shp)"

definition channel_values :: "'a tensor \<Rightarrow> nat \<Rightarrow> 'a list" where
  "channel_values t k =
     map (\<lambda>c. data t ! ravel (shape t) (insert_axis1 c (unravel (drop_axis1 (shape t)) k)))
         [0..<shape t ! 1]"

definition sum_axis1 :: "rat tensor \<Rightarrow> rat list" where
  "sum_axis1 t = map (\<lambda>k. sum_list (channel_values t k)) [0..<prod_list (drop_axis1 (shape t))]"

fun argmax_list :: "rat list \<Rightarrow> nat" where
  "argmax_list [] = 0"
| "argmax_list (x # xs) = (if list_all (\<lambda>y. y \<le> x) xs then 0 else Suc (argmax_list xs))"

definition argmax_axis1 :: "rat tensor \<Rightarrow> nat list" where
  "argmax_axis1 t = map (\<lambda>k. argmax_list (channel_values t k)) [0..<prod_list (drop_axis1 (shape t))]"

text \<open>
  The elements of channel \<open>c\<close> of a tensor of shape \<open>(N, C, ...)\<close>: those whose second
  coordinate is \<open>c\<close>, in row-major order.
\<close>

definition channel_elems :: "'a tensor \<Rightarrow> nat \<Rightarrow> 'a list" where
  "channel_elems t c =
     map (\<lambda>k. data t ! k) (filter (\<lambda>k. unravel (shape t) k ! 1 = c) [0..<numel t])"

subsection \<open>One-hot expansion and the Dice coefficient\<close>

text \<open>
  \<^verbatim>\<open>flatten(tensor)\<close>: \<^verbatim>\<open>tensor.size(1)\<close>, the permutation that swaps the first two
  axes, and the view as \<open>C\<close> rows of the permuted tensor.
\<close>

definition flatten :: "'a tensor \<Rightarrow> error + 'a tensor" where
  "flatten t =
     (if length (shape t) < 2 then Inl IndexError
      else
        let C = shape t ! 1;
            axis_order = [1, 0] @ [2..<length (shape t)]
        in case permute axis_order t of
             Inl e \<Rightarrow> Inl e
           | Inr transposed \<Rightarrow> view_rows C transposed)"

text \<open>
  \<^verbatim>\<open>expand_as_one_hot(input, C, ignore_index=None)\<close>. \<open>shape1\<close> is the shape of the
  input with \<open>C\<close> inserted at position 1; \<open>src\<close> is \<^verbatim>\<open>input.unsqueeze(0)\<close>.
\<close>

definition expand_as_one_hot :: "int tensor \<Rightarrow> nat \<Rightarrow> int option \<Rightarrow> error + rat tensor" where
  "expand_as_one_hot input C ignore_index =
     (if length (shape input) \<noteq> 4 then Inl AssertionError
      else
        let shape1 = (case shape input of n # rest \<Rightarrow> n # C # rest | [] \<Rightarrow> []);
            src = unsqueeze0 input
        in case ignore_index of
             Some ii \<Rightarrow>
               (case expand shape1 src of
                  Inl e \<Rightarrow> Inl e
                | Inr expanded_src \<Rightarrow>
                    let mask = map (\<lambda>v. v = ii) (data expanded_src);
                        src1 = src\<lparr>data := map (\<lambda>v. if v = ii then 0 else v) (data src)\<rparr>
                    in (case scatter_inplace 1 src1 1 (zeros shape1) of
                          Inl e \<Rightarrow> Inl e
                        | Inr result \<Rightarrow>
                            Inr (result\<lparr>data := map2 (\<lambda>m v. if m then of_int ii else v)
                                                       mask (data result)\<rparr>)))
           | None \<Rightarrow> scatter_inplace 1 src 1 (zeros shape1))"

text \<open>
  \<^verbatim>\<open>compute_per_channel_dice(input, target, epsilon, ignore_index, weight)\<close>. The weight
  is a vector; the result is the vector of the per-channel quotients.
\<close>

definition compute_per_channel_dice :: "rat tensor \<Rightarrow> rat tensor \<Rightarrow> rat \<Rightarrow> int option
    \<Rightarrow> rat list option \<Rightarrow> error + pyfloat list" where
  "compute_per_channel_dice input target epsilon ignore_index weight =
     (if shape input \<noteq> shape target then Inl AssertionError
      else
        let mask = (case ignore_index of
                      None \<Rightarrow> None
                    | Some ii \<Rightarrow> Some (target\<lparr>data := map (\<lambda>v. if v \<noteq> of_int ii then 1 else 0)
                                                        (data target)\<rparr>));
            input1 = (case mask of None \<Rightarrow> input | Some m \<Rightarrow> elementwise (*) input m);
            target1 = (case mask of None \<Rightarrow> target | Some m \<Rightarrow> elementwise (*) target m)
        in case flatten input1 of
             Inl e \<Rightarrow> Inl e
           | Inr input2 \<Rightarrow>
               (case flatten target1 of
                  Inl e \<Rightarrow> Inl e
                | Inr target2 \<Rightarrow>
                    let intersect = sum_last (elementwise (*) input2 target2) in
                    case (case weight of
                            None \<Rightarrow> Inr intersect
                          | Some w \<Rightarrow> broadcast (*) w intersect) of
                      Inl e \<Rightarrow> Inl e
                    | Inr intersect1 \<Rightarrow>
                        let denominator = sum_last (elementwise (+) input2 target2) in
                        broadcast fdiv (map (\<lambda>x. 2 * x) intersect1)
                          (map (\<lambda>x. max x epsilon) denominator)))"

text \<open>
  The Dice score of one channel in the words of the specification: twice the weighted
  sum of the products, over the sum of the sums clamped from below by \<open>epsilon\<close>.
\<close>

definition dice_channel :: "rat \<Rightarrow> rat list \<Rightarrow> rat list \<Rightarrow> rat \<Rightarrow> pyfloat" where
  "dice_channel w pred_c target_c epsilon =
     fdiv (2 * (w * sum_list (map2 (*) pred_c target_c)))
          (max (sum_list (map2 (+) pred_c target_c)) epsilon)"

text \<open>
  Where the \<open>m\<close>-th element of channel \<open>c\<close> lies in a tensor of \<open>C\<close> channels with
  \<open>S\<close> elements per image and channel.
\<close>

definition channel_pos :: "nat \<Rightarrow> nat \<Rightarrow> nat \<Rightarrow> nat \<Rightarrow> nat" where
  "channel_pos C S c m = (m div S) * (C * S) + c * S + m mod S"

subsection \<open>Concrete tensors\<close>

text \<open>Two label images of one voxel each, with the labels 0 and 1.\<close>

definition labels2 :: "int tensor" where
  "labels2 = contiguous [2, 1, 1, 1] [0, 1]"

text \<open>One label image of two by two voxels, with the labels 0, 2, 1, 1.\<close>

definition labels1 :: "int tensor" where
  "labels1 = contiguous [1, 1, 2, 2] [0, 2, 1, 1]"

text \<open>One image with two channels of two voxels; the second channel is empty.\<close>

definition mask12 :: "rat tensor" where
  "mask12 = contiguous [1, 2, 1, 1, 2] [1, 0, 0, 0]"

subsection \<open>A concrete trainer\<close>

text \<open>
  A trainer with two parameter groups of different rates, \<^verbatim>\<open>max_patience = 3\<close> and
  \<^verbatim>\<open>patience = 3\<close>, used to evaluate the operations.
\<close>

definition trainer3 :: trainer where
  "trainer3 = \<lparr>model_training = True, param_groups = [1, 1 / 2], max_num_epochs = 200,
     max_num_iterations = 100000, validate_after_iters = 100, log_after_iters = 100,
     best_val_accuracy = NegInf, num_iterations = 0, num_epoch = 0, max_patience = 3,
     patience = 3, logger = [], stdout = [], calls = []\<rparr>"

text \<open>
  The same trainer in epoch 0 of 3, and collaborators that never raise: the model
  returns its input and no auxiliary output, every loss is 0.
\<close>

definition trainer_e0 :: trainer where
  "trainer_e0 = trainer3\<lparr>max_num_epochs := 3\<rparr>"

definition quiet_env :: "(nat, unit) collaborators" where
  "quiet_env = \<lparr>model_call = (\<lambda>x. Inr (x, [])), loss_criterion_1 = (\<lambda>x y. Inr 0),
     accuracy_criterion = (\<lambda>x y. Inr (1, 1, 1)), torch_cat = (\<lambda>x y. Inr x),
     running_acc_new = (), running_acc_update = (\<lambda>abi acc. Inr acc),
     running_acc_mean = (\<lambda>acc. Inr (Fin 1)), val_loader = []\<rparr>"

section \<open>Properties of the trainer\<close>

lemma fgt_irrefl: "\<not> fgt v v"
  by (cases v) simp_all

text \<open>
  Claim C2. For every value \<open>v\<close> and every current best \<open>b\<close>, \<^verbatim>\<open>_is_best_val_accuracy(v)\<close>
  answers whether \<open>v > b\<close> holds, strictly (a tie is not an improvement), and leaves
  \<^verbatim>\<open>max(v, b)\<close> as the best accuracy, which for finite values is the larger of the two.
  Starting from \<open>-inf\<close>, the accuracies 0.5, 0.7, 0.6 are answered true, true, false and
  the best accuracy ends at 0.7.
\<close>

theorem is_best_val_accuracy_strict_max:
  "fst (is_best_val_accuracy v st) = fgt v (best_val_accuracy st)
   \<and> best_val_accuracy (snd (is_best_val_accuracy v st)) = py_max v (best_val_accuracy st)
   \<and> fst (is_best_val_accuracy v (st\<lparr>best_val_accuracy := v\<rparr>)) = False
   \<and> fst (is_best_val_accuracy (Fin x) (st\<lparr>best_val_accuracy := Fin y\<rparr>)) = (y < x)
   \<and> best_val_accuracy (snd (is_best_val_accuracy (Fin x) (st\<lparr>best_val_accuracy := Fin y\<rparr>)))
       = Fin (max x y)
   \<and> fst (feed_accuracies [Fin (5 / 10), Fin (7 / 10), Fin (6 / 10)]
            (st\<lparr>best_val_accuracy := NegInf\<rparr>)) = [True, True, False]
   \<and> best_val_accuracy (snd (feed_accuracies [Fin (5 / 10), Fin (7 / 10), Fin (6 / 10)]
            (st\<lparr>best_val_accuracy := NegInf\<rparr>))) = Fin (7 / 10)"
  by (simp add: is_best_val_accuracy_def py_max_def Let_def fgt_irrefl max_def)

subsection \<open>Early stopping\<close>

lemma check_best:
  "check_early_stopping True st
     = (Inr False, st\<lparr>patience := max_patience st, stdout := stdout st @ [max_patience st]\<rparr>)"
  by (simp add: check_early_stopping_def Let_def)

lemma check_false_patience:
  "patience (snd (check_early_stopping False st)) = patience st - 1"
  by (auto simp: check_early_stopping_def adjust_learning_rate_def Let_def
      split: option.splits prod.splits sum.splits)

lemma check_false_stop:
  "(fst (check_early_stopping False st) = Inr True) = (patience st - 1 \<le> 0)"
  by (auto simp: check_early_stopping_def adjust_learning_rate_def Let_def
      split: option.splits prod.splits sum.splits)

lemma check_false_step:
  assumes "get_lr (param_groups st) = Some lr" and "0 < lr"
  shows "fst (check_early_stopping False st) = Inr (patience st - 1 \<le> 0)"
    and "max_patience (snd (check_early_stopping False st)) = max_patience st"
    and "decay_events (snd (check_early_stopping False st))
           = decay_events st
             + (if 0 < patience st - 1 \<and> patience st - 1 = max_patience st div 2 then 1 else 0)"
    and "param_groups (snd (check_early_stopping False st))
           = (if 0 < patience st - 1 \<and> patience st - 1 = max_patience st div 2
              then map (\<lambda>_. lr / 10) (param_groups st) else param_groups st)"
  using assms
  by (auto simp: check_early_stopping_def adjust_learning_rate_def Let_def decay_events_def)

lemma check_false_lr:
  assumes "get_lr (param_groups st) = Some lr" and "0 < lr"
  shows "\<exists>lr'. get_lr (param_groups (snd (check_early_stopping False st))) = Some lr' \<and> 0 < lr'"
  using assms
  by (auto simp: check_early_stopping_def adjust_learning_rate_def Let_def get_lr_def
      split: list.splits)

text \<open>
  A stretch of \<open>n\<close> calls without improvement, from any patience: the \<open>k\<close>-th call
  signals termination exactly when the patience has run out by then, and the rate is
  decayed once if the stretch passes \<^verbatim>\<open>max_patience // 2\<close> above zero, else not at all.
\<close>

lemma run_false:
  assumes "get_lr (param_groups st) = Some lr" and "0 < lr"
  shows "fst (run_checks (replicate n False) st)
           = Inr (map (\<lambda>k. patience st - int (Suc k) \<le> 0) [0..<n])
       \<and> decay_events (snd (run_checks (replicate n False) st))
           = decay_events st
             + (if 0 < max_patience st div 2 \<and> max_patience st div 2 < patience st
                   \<and> patience st - int n \<le> max_patience st div 2 then 1 else 0)"
  using assms
proof (induction n arbitrary: st lr)
  case 0
  then show ?case by simp
next
  case (Suc n)
  obtain r st1 where c: "check_early_stopping False st = (r, st1)"
    by (cases "check_early_stopping False st")
  have r: "r = Inr (patience st - 1 \<le> 0)"
    using check_false_step(1)[OF Suc.prems] c by simp
  have p1: "patience st1 = patience st - 1"
    using check_false_patience[of st] c by simp
  have m1: "max_patience st1 = max_patience st"
    using check_false_step(2)[OF Suc.prems] c by simp
  have d1: "decay_events st1 = decay_events st
             + (if 0 < patience st - 1 \<and> patience st - 1 = max_patience st div 2 then 1 else 0)"
    using check_false_step(3)[OF Suc.prems] c by simp
  obtain lr1 where l1: "get_lr (param_groups st1) = Some lr1" "0 < lr1"
    using check_false_lr[OF Suc.prems] c by auto
  note ih = Suc.IH[OF l1]
  obtain rs st2 where rc: "run_checks (replicate n False) st1 = (rs, st2)"
    by (cases "run_checks (replicate n False) st1")
  from ih rc have rs: "rs = Inr (map (\<lambda>k. patience st1 - int (Suc k) \<le> 0) [0..<n])"
    and d2: "decay_events st2 = decay_events st1
             + (if 0 < max_patience st1 div 2 \<and> max_patience st1 div 2 < patience st1
                   \<and> patience st1 - int n \<le> max_patience st1 div 2 then 1 else 0)"
    by simp_all
  have "fst (run_checks (replicate (Suc n) False) st)
          = Inr ((patience st - 1 \<le> 0) # map (\<lambda>k. patience st1 - int (Suc k) \<le> 0) [0..<n])"
    using c r rc rs by simp
  moreover have "map (\<lambda>k. patience st - int (Suc k) \<le> 0) [0..<Suc n]
          = (patience st - 1 \<le> 0) # map (\<lambda>k. patience st1 - int (Suc k) \<le> 0) [0..<n]"
    unfolding map_upt_Suc p1 by (simp add: algebra_simps)
  moreover have "snd (run_checks (replicate (Suc n) False) st) = st2"
    using c r rc rs by simp
  ultimately show ?case
    using d1 d2 p1 m1 by auto
qed

lemma run_false_three:
  assumes "get_lr (param_groups st) = Some lr" and "0 < lr"
    and "max_patience st = 3" and "patience st = 3"
  shows "fst (run_checks [False, False, False] st) = Inr [False, False, True]"
    and "decay_events (snd (run_checks [False] st)) = decay_events st"
    and "decay_events (snd (run_checks [False, False] st)) = decay_events st + 1"
    and "decay_events (snd (run_checks [False, False, False] st)) = decay_events st + 1"
  using run_false[OF assms(1,2), of "Suc (Suc (Suc 0))"]
        run_false[OF assms(1,2), of "Suc (Suc 0)"]
        run_false[OF assms(1,2), of "Suc 0"] assms(3,4)
  by (simp_all add: upt_rec)

text \<open>
  Claim C1, as the code has it. A call with \<^verbatim>\<open>is_best = true\<close> resets the patience to
  \<^verbatim>\<open>max_patience\<close> and returns false. A call with \<^verbatim>\<open>is_best = false\<close> decrements the
  patience by 1 and returns true exactly when the decremented patience is at most 0.
  With a positive rate in the first parameter group, such a call decays the rate exactly
  when the decremented patience is positive and equals \<^verbatim>\<open>max_patience // 2\<close>, and the
  decay sets the rate of every group to 0.1 times the rate of the first group. A stretch
  of \<open>n\<close> consecutive calls without improvement therefore decays once if it passes
  \<^verbatim>\<open>max_patience // 2\<close> above zero and never otherwise; a later stretch, after a reset,
  decays again. With \<^verbatim>\<open>max_patience = 3\<close> and \<^verbatim>\<open>patience = 3\<close>, three such calls
  return false, false, true and the one decay happens at the second call, when the
  patience reaches 1.
\<close>

theorem check_early_stopping_patience_decay:
  "check_early_stopping True st
     = (Inr False, st\<lparr>patience := max_patience st, stdout := stdout st @ [max_patience st]\<rparr>)
   \<and> patience (snd (check_early_stopping False st)) = patience st - 1
   \<and> ((fst (check_early_stopping False st) = Inr True) = (patience st - 1 \<le> 0))
   \<and> (get_lr (param_groups st) = Some lr \<and> 0 < lr \<longrightarrow>
        fst (check_early_stopping False st) = Inr (patience st - 1 \<le> 0)
      \<and> decay_events (snd (check_early_stopping False st))
          = decay_events st
            + (if 0 < patience st - 1 \<and> patience st - 1 = max_patience st div 2 then 1 else 0)
      \<and> param_groups (snd (check_early_stopping False st))
          = (if 0 < patience st - 1 \<and> patience st - 1 = max_patience st div 2
             then map (\<lambda>_. lr / 10) (param_groups st) else param_groups st)
      \<and> fst (run_checks (replicate n False) st)
          = Inr (map (\<lambda>k. patience st - int (Suc k) \<le> 0) [0..<n])
      \<and> decay_events (snd (run_checks (replicate n False) st))
          = decay_events st
            + (if 0 < max_patience st div 2 \<and> max_patience st div 2 < patience st
                  \<and> patience st - int n \<le> max_patience st div 2 then 1 else 0))
   \<and> (get_lr (param_groups st) = Some lr \<and> 0 < lr \<and> max_patience st = 3 \<and> patience st = 3 \<longrightarrow>
        fst (run_checks [False, False, False] st) = Inr [False, False, True]
      \<and> decay_events (snd (run_checks [False] st)) = decay_events st
      \<and> decay_events (snd (run_checks [False, False] st)) = decay_events st + 1
      \<and> decay_events (snd (run_checks [False, False, False] st)) = decay_events st + 1)"
proof -
  have per_call: "get_lr (param_groups st) = Some lr \<and> 0 < lr \<longrightarrow>
        fst (check_early_stopping False st) = Inr (patience st - 1 \<le> 0)
      \<and> decay_events (snd (check_early_stopping False st))
          = decay_events st
            + (if 0 < patience st - 1 \<and> patience st - 1 = max_patience st div 2 then 1 else 0)
      \<and> param_groups (snd (check_early_stopping False st))
          = (if 0 < patience st - 1 \<and> patience st - 1 = max_patience st div 2
             then map (\<lambda>_. lr / 10) (param_groups st) else param_groups st)"
    using check_false_step[of st lr] by blast
  have stretch: "get_lr (param_groups st) = Some lr \<and> 0 < lr \<longrightarrow>
        fst (run_checks (replicate n False) st)
          = Inr (map (\<lambda>k. patience st - int (Suc k) \<le> 0) [0..<n])
      \<and> decay_events (snd (run_checks (replicate n False) st))
          = decay_events st
            + (if 0 < max_patience st div 2 \<and> max_patience st div 2 < patience st
                  \<and> patience st - int n \<le> max_patience st div 2 then 1 else 0)"
    using run_false[of st lr n] by blast
  have three: "get_lr (param_groups st) = Some lr \<and> 0 < lr \<and> max_patience st = 3 \<and> patience st = 3 \<longrightarrow>
        fst (run_checks [False, False, False] st) = Inr [False, False, True]
      \<and> decay_events (snd (run_checks [False] st)) = decay_events st
      \<and> decay_events (snd (run_checks [False, False] st)) = decay_events st + 1
      \<and> decay_events (snd (run_checks [False, False, False] st)) = decay_events st + 1"
    using run_false_three[of st lr] by blast
  show ?thesis
    using check_best[of st] check_false_patience[of st] check_false_stop[of st]
      per_call stretch three
    by blast
qed

theorem check_early_stopping_patience_decay_witness:
  "get_lr (param_groups trainer3) = Some 1 \<and> (0::rat) < 1
   \<and> max_patience trainer3 = 3 \<and> patience trainer3 = 3
   \<and> fst (run_checks [False, False, False] trainer3) = Inr [False, False, True]
   \<and> decay_events (snd (run_checks [False] trainer3)) = 0
   \<and> decay_events (snd (run_checks [False, False] trainer3)) = 1
   \<and> decay_events (snd (run_checks [False, False, False] trainer3)) = 1
   \<and> param_groups (snd (run_checks [False, False] trainer3)) = [1 / 10, 1 / 10]"
proof -
  have h: "get_lr (param_groups trainer3) = Some 1 \<and> (0::rat) < 1
      \<and> max_patience trainer3 = 3 \<and> patience trainer3 = 3"
    by (simp add: trainer3_def get_lr_def)
  have d: "decay_events trainer3 = 0"
    by (simp add: trainer3_def decay_events_def)
  have g: "param_groups (snd (run_checks [False, False] trainer3)) = [1 / 10, 1 / 10]"
    by (simp add: trainer3_def check_early_stopping_def adjust_learning_rate_def Let_def
        get_lr_def)
  show ?thesis
    using h d g check_early_stopping_patience_decay[of trainer3 1 3] by simp
qed

text \<open>
  The claim as stated fails twice. A run that starts at \<^verbatim>\<open>patience = max_patience = 3\<close>
  and improves once in the middle decays the rate twice, not once; and with rates 1 and
  0.5 the decay leaves 0.1 in both groups, so the second rate is not multiplied by 0.1.
\<close>

theorem check_early_stopping_decay_counterexample:
  "patience trainer3 = max_patience trainer3
   \<and> decay_events trainer3 = 0
   \<and> fst (run_checks [False, False, True, False, False] trainer3)
       = Inr [False, False, False, False, False]
   \<and> decay_events (snd (run_checks [False, False, True, False, False] trainer3)) = 2
   \<and> param_groups trainer3 = [1, 1 / 2]
   \<and> param_groups (snd (run_checks [False, False] trainer3)) = [1 / 10, 1 / 10]
   \<and> map (\<lambda>lr. lr * (1 / 10)) (param_groups trainer3) = [1 / 10, 1 / 20]"
  by (simp add: trainer3_def check_early_stopping_def adjust_learning_rate_def Let_def
      decay_events_def get_lr_def)

subsection \<open>Validation and the mode of the model\<close>

lemma forward_pass_effect:
  "model_training (snd (forward_pass env i t ta st)) = model_training st
   \<and> calls (snd (forward_pass env i t ta st)) = calls st @ [ModelForward (model_training st)]"
  by (auto simp: forward_pass_def Let_def split: sum.splits prod.splits)

lemma call_forward_pass_effect:
  "model_training (snd (call_forward_pass env loc st)) = model_training st
   \<and> (\<exists>n. calls (snd (call_forward_pass env loc st))
            = calls st @ replicate n (ModelForward (model_training st)))"
proof (cases "\<exists>i t ta. l_input loc = Some i \<and> l_target loc = Some t \<and> l_target_aux loc = Some ta")
  case True
  then obtain i t ta where "l_input loc = Some i" "l_target loc = Some t" "l_target_aux loc = Some ta"
    by blast
  then have "call_forward_pass env loc st = forward_pass env i t ta st"
    by (simp add: call_forward_pass_def)
  moreover have "calls st @ [ModelForward (model_training st)]
      = calls st @ replicate (Suc 0) (ModelForward (model_training st))" by simp
  ultimately show ?thesis using forward_pass_effect[of env i t ta st] by metis
next
  case False
  then have "call_forward_pass env loc st = (Inl UnboundLocalError, st)"
    by (auto simp: call_forward_pass_def split: option.splits)
  moreover have "calls st = calls st @ replicate 0 (ModelForward (model_training st))" by simp
  ultimately show ?thesis by (metis snd_conv)
qed

lemma validate_loop_effect:
  "model_training (snd (validate_loop env ts loc acc st)) = model_training st
   \<and> (\<exists>n. calls (snd (validate_loop env ts loc acc st))
            = calls st @ replicate n (ModelForward (model_training st)))"
proof (induction ts arbitrary: loc acc st)
  case Nil
  have "calls st = calls st @ replicate 0 (ModelForward (model_training st))" by simp
  then show ?case by (metis validate_loop.simps(1) snd_conv)
next
  case (Cons t ts)
  define loc1 where "loc1 = unpack_validate t loc"
  obtain r st1 where c: "call_forward_pass env loc1 st = (r, st1)"
    by (cases "call_forward_pass env loc1 st")
  from call_forward_pass_effect[of env loc1 st] c obtain n
    where m1: "model_training st1 = model_training st"
      and c1: "calls st1 = calls st @ replicate n (ModelForward (model_training st))"
    by auto
  have here: "model_training st1 = model_training st
      \<and> (\<exists>k. calls st1 = calls st @ replicate k (ModelForward (model_training st)))"
    using m1 c1 by blast
  have later: "\<And>acc1. model_training (snd (validate_loop env ts loc1 acc1 st1)) = model_training st
      \<and> (\<exists>k. calls (snd (validate_loop env ts loc1 acc1 st1))
            = calls st @ replicate k (ModelForward (model_training st)))"
  proof -
    fix acc1
    from Cons.IH[of loc1 acc1 st1] obtain k
      where "model_training (snd (validate_loop env ts loc1 acc1 st1)) = model_training st1"
        and "calls (snd (validate_loop env ts loc1 acc1 st1))
              = calls st1 @ replicate k (ModelForward (model_training st1))"
      by auto
    then show "model_training (snd (validate_loop env ts loc1 acc1 st1)) = model_training st
      \<and> (\<exists>k. calls (snd (validate_loop env ts loc1 acc1 st1))
            = calls st @ replicate k (ModelForward (model_training st)))"
      using m1 c1 by (auto simp: replicate_add[symmetric] simp del: replicate_add)
  qed
  show ?case
    using c here later
    by (auto simp: loc1_def[symmetric] Let_def split: sum.splits prod.splits option.splits)
qed

text \<open>
  Claim C8. \<^verbatim>\<open>validate\<close> puts the model in evaluation mode at entry, every forward pass
  of the validation runs in that mode, and whatever the outcome (the mean accuracy when
  the loader is exhausted, or the exception of a collaborator or of the loop itself)
  the last thing done is to put the model back in training mode. A loader whose first
  batch is a pair is an exceptional exit: the auxiliary target is not assigned.
\<close>

theorem validate_restores_training_mode:
  "model_training (snd (validate env loader st))
   \<and> (\<exists>n. calls (snd (validate env loader st))
          = calls st @ [ModelEval] @ replicate n (ModelForward False) @ [ModelTrain])
   \<and> validate env ([x, y] # rest) st
       = (Inl UnboundLocalError,
          st\<lparr>logger := logger st @ [ValidatingMsg (num_epoch st)], model_training := True,
             calls := calls st @ [ModelEval, ModelTrain]\<rparr>)"
proof -
  have pair: "validate env ([x, y] # rest) st
       = (Inl UnboundLocalError,
          st\<lparr>logger := logger st @ [ValidatingMsg (num_epoch st)], model_training := True,
             calls := calls st @ [ModelEval, ModelTrain]\<rparr>)"
    by (simp add: validate_def Let_def unpack_validate_def call_forward_pass_def no_locals_def)
  define st1 where "st1 = st\<lparr>logger := logger st @ [ValidatingMsg (num_epoch st)],
      model_training := False, calls := calls st @ [ModelEval]\<rparr>"
  obtain r st2 where v: "validate_loop env loader no_locals (running_acc_new env) st1 = (r, st2)"
    by (cases "validate_loop env loader no_locals (running_acc_new env) st1")
  from validate_loop_effect[of env loader no_locals "running_acc_new env" st1] v
  obtain n where "calls st2 = calls st @ [ModelEval] @ replicate n (ModelForward False)"
    by (auto simp: st1_def)
  then have "model_training (snd (validate env loader st))
   \<and> (\<exists>n. calls (snd (validate env loader st))
          = calls st @ [ModelEval] @ replicate n (ModelForward False) @ [ModelTrain])"
    using v
    by (auto simp: validate_def Let_def st1_def[symmetric] split: sum.splits prod.splits)
  then show ?thesis using pair by blast
qed

subsection \<open>Batch shapes of the training loop\<close>

text \<open>
  Claim C9 at a loader whose first batch is a pair \<^verbatim>\<open>(input, target)\<close>: the branch for
  pairs assigns no auxiliary target, so reading \<^verbatim>\<open>target_\<close> for the forward pass raises
  UnboundLocalError. Nothing is passed to the model, no optimizer step is made and
  \<^verbatim>\<open>num_iterations\<close> keeps its value. The same happens for a first batch of six
  elements, whatever \<^verbatim>\<open>torch.cat\<close> returns.
\<close>

theorem train_pair_unbound_target:
  "train env ([x, y] # rest) st
     = (Inl UnboundLocalError, st\<lparr>model_training := True, calls := calls st @ [ModelTrain]\<rparr>)
   \<and> num_iterations (snd (train env ([x, y] # rest) st)) = num_iterations st
   \<and> fst (train env ([a, b, c, d, e, f] # rest) st) \<noteq> Inr r"
  by (simp add: train_def train_body_def Let_def unpack_train_def call_forward_pass_def
      no_locals_def split: sum.splits)

subsection \<open>Checkpoints and resuming\<close>

text \<open>
  What \<^verbatim>\<open>fit\<close> does first: with an epoch left, one pass of \<^verbatim>\<open>train\<close> on the trainer
  as it stands, and then the remaining passes with the epoch counted up; with none
  left, nothing.
\<close>

lemma fit_first_pass:
  assumes "num_epoch r < max_num_epochs r"
  shows "fit env loader r =
     (case train env loader r of
        (Inl e, st1) \<Rightarrow> (Inl e, st1)
      | (Inr should_terminate, st1) \<Rightarrow>
          if should_terminate then (Inr (), st1)
          else fit_loop env loader (nat (max_num_epochs r - (num_epoch r + 1)))
                 (st1\<lparr>num_epoch := num_epoch st1 + 1\<rparr>))"
proof -
  have "nat (max_num_epochs r - num_epoch r) = Suc (nat (max_num_epochs r - (num_epoch r + 1)))"
    using assms by simp
  then show ?thesis by (simp add: fit_def)
qed

lemma fit_no_pass:
  assumes "\<not> num_epoch r < max_num_epochs r"
  shows "fit env loader r = (Inr (), r)"
proof -
  have "nat (max_num_epochs r - num_epoch r) = 0" using assms by simp
  then show ?thesis by (simp add: fit_def)
qed

text \<open>
  Claim C10. The checkpoint that \<^verbatim>\<open>_save_checkpoint\<close> writes records
  \<^verbatim>\<open>num_epoch + 1\<close> as its epoch and the live values of \<^verbatim>\<open>num_iterations\<close>,
  \<^verbatim>\<open>best_val_accuracy\<close>, \<^verbatim>\<open>patience\<close> and \<^verbatim>\<open>max_patience\<close>. \<^verbatim>\<open>from_checkpoint\<close> installs
  the saved epoch as \<^verbatim>\<open>num_epoch\<close>. So \<^verbatim>\<open>fit\<close> on the restored trainer resumes at
  epoch \<open>e + 1\<close>: if that epoch is below \<^verbatim>\<open>max_num_epochs\<close>, its first pass is
  \<^verbatim>\<open>train\<close> on the restored trainer, whose epoch is \<open>e + 1\<close>, followed (unless that
  pass terminates or raises) by the passes for the epochs from \<open>e + 2\<close>; otherwise it
  trains nothing. No pass is made for what was left of epoch \<open>e\<close>.
\<close>

theorem checkpoint_epoch_resume:
  "calls (save_checkpoint is_best st) = calls st @ [SaveCheckpoint (checkpoint_dict st) is_best]
   \<and> ck_epoch (checkpoint_dict st) = num_epoch st + 1
   \<and> ck_num_iterations (checkpoint_dict st) = num_iterations st
   \<and> ck_best_val_accuracy (checkpoint_dict st) = best_val_accuracy st
   \<and> ck_patience (checkpoint_dict st) = patience st
   \<and> ck_max_patience (checkpoint_dict st) = max_patience st
   \<and> (\<exists>r. from_checkpoint (checkpoint_dict st) m opt v l (Some lg) = Inr r
         \<and> num_epoch r = num_epoch st + 1
         \<and> num_iterations r = num_iterations st
         \<and> best_val_accuracy r = best_val_accuracy st
         \<and> max_num_epochs r = max_num_epochs st
         \<and> fit env loader r = fit_loop env loader (nat (max_num_epochs st - (num_epoch st + 1))) r
         \<and> fit env loader r =
             (if num_epoch st + 1 < max_num_epochs st then
                (case train env loader r of
                   (Inl e, st1) \<Rightarrow> (Inl e, st1)
                 | (Inr should_terminate, st1) \<Rightarrow>
                     if should_terminate then (Inr (), st1)
                     else fit_loop env loader (nat (max_num_epochs st - (num_epoch st + 2)))
                            (st1\<lparr>num_epoch := num_epoch st1 + 1\<rparr>))
              else (Inr (), r)))"
proof -
  obtain r where r: "from_checkpoint (checkpoint_dict st) m opt v l (Some lg) = Inr r"
    by (simp add: from_checkpoint_def Let_def)
  then have e: "num_epoch r = num_epoch st + 1" and i: "num_iterations r = num_iterations st"
    and b: "best_val_accuracy r = best_val_accuracy st" and x: "max_num_epochs r = max_num_epochs st"
    by (auto simp: from_checkpoint_def checkpoint_dict_def init_def Let_def)
  have f0: "fit env loader r = fit_loop env loader (nat (max_num_epochs st - (num_epoch st + 1))) r"
    by (simp add: fit_def e x)
  have f1: "fit env loader r =
             (if num_epoch st + 1 < max_num_epochs st then
                (case train env loader r of
                   (Inl e, st1) \<Rightarrow> (Inl e, st1)
                 | (Inr should_terminate, st1) \<Rightarrow>
                     if should_terminate then (Inr (), st1)
                     else fit_loop env loader (nat (max_num_epochs st - (num_epoch st + 2)))
                            (st1\<lparr>num_epoch := num_epoch st1 + 1\<rparr>))
              else (Inr (), r))"
  proof (cases "num_epoch st + 1 < max_num_epochs st")
    case True
    then have "num_epoch r < max_num_epochs r" by (simp add: e x)
    moreover have "nat (max_num_epochs r - (num_epoch r + 1))
        = nat (max_num_epochs st - (num_epoch st + 2))"
      by (simp add: e x)
    ultimately show ?thesis
      using fit_first_pass[of r env loader] True by (simp only: if_True)
  next
    case False
    then have "\<not> num_epoch r < max_num_epochs r" by (simp add: e x)
    from fit_no_pass[OF this, of env loader] False show ?thesis by simp
  qed
  have "calls (save_checkpoint is_best st) = calls st @ [SaveCheckpoint (checkpoint_dict st) is_best]
   \<and> ck_epoch (checkpoint_dict st) = num_epoch st + 1
   \<and> ck_num_iterations (checkpoint_dict st) = num_iterations st
   \<and> ck_best_val_accuracy (checkpoint_dict st) = best_val_accuracy st
   \<and> ck_patience (checkpoint_dict st) = patience st
   \<and> ck_max_patience (checkpoint_dict st) = max_patience st"
    by (simp add: save_checkpoint_def checkpoint_dict_def)
  then show ?thesis using r e i b x f0 f1 by blast
qed

text \<open>
  A trainer saved in epoch 0 of 3 and restored: two passes are trained, for the epochs
  1 and 2, each over the one batch of the loader.
\<close>

theorem checkpoint_epoch_resume_witness:
  "\<exists>r. from_checkpoint (checkpoint_dict trainer_e0) True [1] 100 100 (Some []) = Inr r
       \<and> num_epoch trainer_e0 = 0 \<and> num_epoch r = 1 \<and> max_num_epochs r = 3
       \<and> fit quiet_env [[7, 8, 9]] r
           = fit_loop quiet_env [[7, 8, 9]] (nat (max_num_epochs trainer_e0 - (num_epoch trainer_e0 + 1))) r
       \<and> num_epoch (snd (fit quiet_env [[7, 8, 9]] r)) = 3
       \<and> calls (snd (fit quiet_env [[7, 8, 9]] r))
           = [ModelTrain, ModelForward True, ZeroGrad, Backward 0, OptimizerStep,
              ModelTrain, ModelForward True, ZeroGrad, Backward 0, OptimizerStep]"
proof -
  define r0 where "r0 = init True [1] 3 100000 100 100 100 100 NegInf 0 1
      [LoadingCheckpoint, CheckpointLoaded 1 NegInf 0]"
  have fc: "from_checkpoint (checkpoint_dict trainer_e0) True [1] 100 100 (Some []) = Inr r0"
    unfolding r0_def by code_simp
  have ev: "num_epoch trainer_e0 = 0 \<and> num_epoch r0 = 1 \<and> max_num_epochs r0 = 3
       \<and> num_epoch (snd (fit quiet_env [[7, 8, 9]] r0)) = 3
       \<and> calls (snd (fit quiet_env [[7, 8, 9]] r0))
           = [ModelTrain, ModelForward True, ZeroGrad, Backward 0, OptimizerStep,
              ModelTrain, ModelForward True, ZeroGrad, Backward 0, OptimizerStep]"
    unfolding r0_def by code_simp
  from checkpoint_epoch_resume[of True trainer_e0 True "[1]" 100 100 "[]" quiet_env "[[7, 8, 9]]"]
  obtain r where "from_checkpoint (checkpoint_dict trainer_e0) True [1] 100 100 (Some []) = Inr r"
    and "fit quiet_env [[7, 8, 9]] r
           = fit_loop quiet_env [[7, 8, 9]] (nat (max_num_epochs trainer_e0 - (num_epoch trainer_e0 + 1))) r"
    by blast
  with fc ev show ?thesis by auto
qed

section \<open>Properties of the loss factory\<close>

text \<open>What the factory returns for each supported name.\<close>

lemma glc_ce: "get_loss_criterion ''ce'' w ii
    = Inr (CrossEntropyLoss w (if ii = None then Some (- 100) else ii))"
  by (simp add: get_loss_criterion_def SUPPORTED_LOSSES_def Let_def)

lemma glc_bce: "get_loss_criterion ''bce'' w ii
    = (if ii = None then Inr BCEWithLogitsLoss else Inr (IgnoreIndexLossWrapper BCEWithLogitsLoss ii))"
  by (simp add: get_loss_criterion_def SUPPORTED_LOSSES_def Let_def IgnoreIndexLossWrapper_init_def)

lemma glc_wce: "get_loss_criterion ''wce'' w ii
    = Inr (WeightedCrossEntropyLoss w (if ii = None then Some (- 100) else ii))"
  by (simp add: get_loss_criterion_def SUPPORTED_LOSSES_def Let_def)

lemma glc_pce: "get_loss_criterion ''pce'' w ii = Inr (PixelWiseCrossEntropyLoss w ii)"
  by (simp add: get_loss_criterion_def SUPPORTED_LOSSES_def Let_def)

lemma glc_gdl: "get_loss_criterion ''gdl'' w ii = Inr (GeneralizedDiceLoss (1 / 100000) w ii True)"
  by (simp add: get_loss_criterion_def SUPPORTED_LOSSES_def Let_def)

lemma glc_dice: "get_loss_criterion ''dice'' w ii = Inr (DiceLoss (1 / 100000) w ii True)"
  by (simp add: get_loss_criterion_def SUPPORTED_LOSSES_def Let_def)

lemma glc_focal: "get_loss_criterion ''focal'' w ii = Inr (FocalLoss w 2)"
  by (simp add: get_loss_criterion_def SUPPORTED_LOSSES_def Let_def)

lemma glc_entropy: "get_loss_criterion ''EntropyLoss'' w ii = Inr (EntropyLoss (1 / 100000) w ii True)"
  by (simp add: get_loss_criterion_def SUPPORTED_LOSSES_def Let_def)


lemma get_loss_criterion_supported:
  "(\<exists>l. get_loss_criterion loss_str weight ignore_index = Inr l) = (loss_str \<in> set SUPPORTED_LOSSES)"
  by (simp add: get_loss_criterion_def IgnoreIndexLossWrapper_init_def Let_def)

lemma wrap_factory:
  assumes a: "get_loss_criterion loss_str weight ignore_index = Inr l"
  shows "(IgnoreIndexLossWrapper_init l ii = Inr (IgnoreIndexLossWrapper l ii))
            = (loss_str = ''bce'' \<and> ignore_index = None \<or> loss_str = ''focal'')"
proof -
  have s: "loss_str \<in> set SUPPORTED_LOSSES"
    using a get_loss_criterion_supported by blast
  then have d: "loss_str = ''ce'' \<or> loss_str = ''bce'' \<or> loss_str = ''wce'' \<or> loss_str = ''pce''
    \<or> loss_str = ''dice'' \<or> loss_str = ''gdl'' \<or> loss_str = ''EntropyLoss'' \<or> loss_str = ''focal''"
    by (simp add: SUPPORTED_LOSSES_def)
  show ?thesis
    using d
  proof (elim disjE)
    assume c: "loss_str = ''ce''"
    with a have "l = CrossEntropyLoss weight (if ignore_index = None then Some (- 100) else ignore_index)"
      by (simp add: glc_ce)
    with c show ?thesis by (simp add: IgnoreIndexLossWrapper_init_def)
  next
    assume c: "loss_str = ''bce''"
    with a have "l = (if ignore_index = None then BCEWithLogitsLoss
        else IgnoreIndexLossWrapper BCEWithLogitsLoss ignore_index)"
      by (auto simp: glc_bce split: if_splits)
    with c show ?thesis by (simp add: IgnoreIndexLossWrapper_init_def)
  next
    assume c: "loss_str = ''wce''"
    with a have "l = WeightedCrossEntropyLoss weight (if ignore_index = None then Some (- 100) else ignore_index)"
      by (simp add: glc_wce)
    with c show ?thesis by (simp add: IgnoreIndexLossWrapper_init_def)
  next
    assume c: "loss_str = ''pce''"
    with a have "l = PixelWiseCrossEntropyLoss weight ignore_index"
      by (simp add: glc_pce)
    with c show ?thesis by (simp add: IgnoreIndexLossWrapper_init_def)
  next
    assume c: "loss_str = ''dice''"
    with a have "l = DiceLoss (1 / 100000) weight ignore_index True"
      by (simp add: glc_dice)
    with c show ?thesis by (simp add: IgnoreIndexLossWrapper_init_def)
  next
    assume c: "loss_str = ''gdl''"
    with a have "l = GeneralizedDiceLoss (1 / 100000) weight ignore_index True"
      by (simp add: glc_gdl)
    with c show ?thesis by (simp add: IgnoreIndexLossWrapper_init_def)
  next
    assume c: "loss_str = ''EntropyLoss''"
    with a have "l = EntropyLoss (1 / 100000) weight ignore_index True"
      by (simp add: glc_entropy)
    with c show ?thesis by (simp add: IgnoreIndexLossWrapper_init_def)
  next
    assume c: "loss_str = ''focal''"
    with a have "l = FocalLoss weight 2"
      by (simp add: glc_focal)
    with c show ?thesis by (simp add: IgnoreIndexLossWrapper_init_def)
  qed
qed


text \<open>
  Claim C6. \<^verbatim>\<open>get_loss_criterion\<close> fails its assertion for every name outside
  \<^verbatim>\<open>ce, bce, wce, pce, dice, gdl, EntropyLoss, focal\<close> (for \<^verbatim>\<open>bogus\<close>, say) and returns a
  loss for every name of the set; for \<^verbatim>\<open>ce\<close> and \<^verbatim>\<open>wce\<close> without an \<^verbatim>\<open>ignore_index\<close>
  the loss returned is configured with \<open>-100\<close>, not with \<^verbatim>\<open>None\<close>.
\<close>

theorem get_loss_criterion_names:
  "(loss_str \<notin> set SUPPORTED_LOSSES
      \<longrightarrow> get_loss_criterion loss_str weight ignore_index = Inl AssertionError)
   \<and> set SUPPORTED_LOSSES
       = {''ce'', ''bce'', ''wce'', ''pce'', ''dice'', ''gdl'', ''EntropyLoss'', ''focal''}
   \<and> ((\<exists>l. get_loss_criterion loss_str weight ignore_index = Inr l)
        = (loss_str \<in> set SUPPORTED_LOSSES))
   \<and> get_loss_criterion ''bogus'' weight ignore_index = Inl AssertionError
   \<and> get_loss_criterion ''ce'' weight None = Inr (CrossEntropyLoss weight (Some (- 100)))
   \<and> get_loss_criterion ''wce'' weight None = Inr (WeightedCrossEntropyLoss weight (Some (- 100)))"
proof -
  have "loss_str \<notin> set SUPPORTED_LOSSES
      \<longrightarrow> get_loss_criterion loss_str weight ignore_index = Inl AssertionError"
    by (simp add: get_loss_criterion_def)
  moreover have "set SUPPORTED_LOSSES
       = {''ce'', ''bce'', ''wce'', ''pce'', ''dice'', ''gdl'', ''EntropyLoss'', ''focal''}"
    by (simp add: SUPPORTED_LOSSES_def)
  moreover have "get_loss_criterion ''bogus'' weight ignore_index = Inl AssertionError"
    by (simp add: get_loss_criterion_def SUPPORTED_LOSSES_def)
  moreover have "get_loss_criterion ''ce'' weight None = Inr (CrossEntropyLoss weight (Some (- 100)))"
    by (simp add: glc_ce)
  moreover have "get_loss_criterion ''wce'' weight None
      = Inr (WeightedCrossEntropyLoss weight (Some (- 100)))"
    by (simp add: glc_wce)
  moreover note get_loss_criterion_supported[of loss_str weight ignore_index]
  ultimately show ?thesis
    by (intro conjI)
qed

theorem get_loss_criterion_names_witness:
  "''mse'' \<notin> set SUPPORTED_LOSSES \<and> get_loss_criterion ''mse'' None (Some 5) = Inl AssertionError"
proof -
  have h: "''mse'' \<notin> set SUPPORTED_LOSSES"
    by (simp add: SUPPORTED_LOSSES_def)
  have "''mse'' \<notin> set SUPPORTED_LOSSES
      \<longrightarrow> get_loss_criterion ''mse'' None (Some 5) = Inl AssertionError"
    using get_loss_criterion_names[of "''mse''" None "Some 5"] by (elim conjE)
  with h show ?thesis by (intro conjI) (assumption, erule (1) mp)
qed

text \<open>
  Claim C7. For \<^verbatim>\<open>bce\<close> with an \<^verbatim>\<open>ignore_index\<close> \<open>k\<close> the factory returns an
  \<^verbatim>\<open>IgnoreIndexLossWrapper\<close> around the BCE loss, carrying \<open>k\<close>. Constructing the wrapper
  raises for every object that has an attribute \<^verbatim>\<open>ignore_index\<close> and succeeds for every
  object that has none; among the losses of the factory it succeeds for the bare BCE
  loss and the focal loss only, and a wrapper cannot be wrapped again.
\<close>

theorem ignore_index_wrapper_construction:
  "get_loss_criterion ''bce'' weight (Some k)
     = Inr (IgnoreIndexLossWrapper BCEWithLogitsLoss (Some k))
   \<and> (has_ignore_index l \<longrightarrow> IgnoreIndexLossWrapper_init l ii = Inl RuntimeError)
   \<and> (\<not> has_ignore_index l \<longrightarrow> IgnoreIndexLossWrapper_init l ii = Inr (IgnoreIndexLossWrapper l ii))
   \<and> (''ignore_index'' \<in> set names \<longrightarrow> IgnoreIndexLossWrapper_init (Object names) ii = Inl RuntimeError)
   \<and> (''ignore_index'' \<notin> set names
        \<longrightarrow> IgnoreIndexLossWrapper_init (Object names) ii = Inr (IgnoreIndexLossWrapper (Object names) ii))
   \<and> IgnoreIndexLossWrapper_init (IgnoreIndexLossWrapper l0 k0) ii = Inl RuntimeError
   \<and> (get_loss_criterion loss_str weight ignore_index = Inr l
        \<longrightarrow> (IgnoreIndexLossWrapper_init l ii = Inr (IgnoreIndexLossWrapper l ii))
            = (loss_str = ''bce'' \<and> ignore_index = None \<or> loss_str = ''focal''))"
proof -
  have "get_loss_criterion ''bce'' weight (Some k)
     = Inr (IgnoreIndexLossWrapper BCEWithLogitsLoss (Some k))"
    by (simp add: glc_bce)
  moreover have "get_loss_criterion loss_str weight ignore_index = Inr l
        \<longrightarrow> (IgnoreIndexLossWrapper_init l ii = Inr (IgnoreIndexLossWrapper l ii))
            = (loss_str = ''bce'' \<and> ignore_index = None \<or> loss_str = ''focal'')"
    using wrap_factory[of loss_str weight ignore_index l ii] by blast
  moreover have "(has_ignore_index l \<longrightarrow> IgnoreIndexLossWrapper_init l ii = Inl RuntimeError)
   \<and> (\<not> has_ignore_index l \<longrightarrow> IgnoreIndexLossWrapper_init l ii = Inr (IgnoreIndexLossWrapper l ii))
   \<and> (''ignore_index'' \<in> set names \<longrightarrow> IgnoreIndexLossWrapper_init (Object names) ii = Inl RuntimeError)
   \<and> (''ignore_index'' \<notin> set names
        \<longrightarrow> IgnoreIndexLossWrapper_init (Object names) ii = Inr (IgnoreIndexLossWrapper (Object names) ii))
   \<and> IgnoreIndexLossWrapper_init (IgnoreIndexLossWrapper l0 k0) ii = Inl RuntimeError"
    by (simp add: IgnoreIndexLossWrapper_init_def)
  ultimately show ?thesis by blast
qed

theorem ignore_index_wrapper_construction_witness:
  "has_ignore_index (DiceLoss (1 / 100000) None None True)
   \<and> IgnoreIndexLossWrapper_init (DiceLoss (1 / 100000) None None True) (Some 5) = Inl RuntimeError
   \<and> \<not> has_ignore_index (FocalLoss None 2)
   \<and> IgnoreIndexLossWrapper_init (FocalLoss None 2) (Some 5)
       = Inr (IgnoreIndexLossWrapper (FocalLoss None 2) (Some 5))
   \<and> ''ignore_index'' \<in> set [''weight'', ''ignore_index'']
   \<and> IgnoreIndexLossWrapper_init (Object [''weight'', ''ignore_index'']) (Some 5) = Inl RuntimeError
   \<and> ''ignore_index'' \<notin> set [''weight'']
   \<and> IgnoreIndexLossWrapper_init (Object [''weight'']) (Some 5)
       = Inr (IgnoreIndexLossWrapper (Object [''weight'']) (Some 5))
   \<and> get_loss_criterion ''focal'' None (Some 5) = Inr (FocalLoss None 2)"
proof -
  have h1: "has_ignore_index (DiceLoss (1 / 100000) None None True)" by simp
  have h2: "\<not> has_ignore_index (FocalLoss None 2)" by simp
  have h3: "''ignore_index'' \<in> set [''weight'', ''ignore_index'']" by simp
  have h4: "''ignore_index'' \<notin> set [''weight'']" by simp
  have h5: "get_loss_criterion ''focal'' None (Some 5) = Inr (FocalLoss None 2)"
    by (simp add: glc_focal)
  note a = ignore_index_wrapper_construction[where l = "DiceLoss (1 / 100000) None None True"
      and ii = "Some 5" and names = "[''weight'', ''ignore_index'']" and weight = None and k = 5
      and loss_str = "''bce''" and ignore_index = None and ?l0.0 = BCEWithLogitsLoss and ?k0.0 = None]
  note b = ignore_index_wrapper_construction[where l = "FocalLoss None 2"
      and ii = "Some 5" and names = "[''weight'']" and weight = None and k = 5
      and loss_str = "''focal''" and ignore_index = "Some 5" and ?l0.0 = BCEWithLogitsLoss and ?k0.0 = None]
  show ?thesis
    using h1 h2 h3 h4 h5 a b by blast
qed

section \<open>Properties of the losses\<close>

subsection \<open>Positions and multi-indices\<close>

lemma ravel_unravel: "k < prod_list shp \<Longrightarrow> ravel shp (unravel shp k) = k"
proof (induction shp arbitrary: k)
  case Nil
  then show ?case by simp
next
  case (Cons d ds)
  then have "0 < prod_list ds" by (cases "prod_list ds") auto
  then have "k mod prod_list ds < prod_list ds" by simp
  then show ?case using Cons.IH by simp
qed

lemma length_unravel [simp]: "length (unravel shp k) = length shp"
  by (induction shp arbitrary: k) auto

lemma index_of_upt: "a \<le> j \<Longrightarrow> j < b \<Longrightarrow> index_of [a..<b] j = j - a"
proof (induction "b - a" arbitrary: a)
  case 0
  then show ?case by simp
next
  case (Suc n)
  then have "[a..<b] = a # [Suc a..<b]" by (simp add: upt_rec)
  moreover have "a \<noteq> j \<Longrightarrow> index_of [Suc a..<b] j = j - Suc a"
    using Suc by (intro Suc.hyps(1)) auto
  ultimately show ?case using Suc.prems by auto
qed

lemma upt_from2: "[2..<Suc (Suc n)] = map (\<lambda>i. Suc (Suc i)) [0..<n]"
proof -
  have "[Suc (Suc 0)..<Suc (Suc n)] = map Suc (map Suc [0..<n])"
    by (simp only: map_Suc_upt)
  then show ?thesis
    by (simp only: numeral_2_eq_2 map_map comp_def)
qed

lemma map_nth_from2: "map (\<lambda>j. (x # y # s) ! j) [2..<Suc (Suc (length s))] = s"
proof -
  have "map (\<lambda>j. (x # y # s) ! j) [2..<Suc (Suc (length s))]
      = map (\<lambda>i. s ! i) [0..<length s]"
    by (simp only: upt_from2 map_map comp_def nth_Cons_Suc)
  then show ?thesis by (simp only: map_nth)
qed

lemma source_index_swap:
  "source_index ([1, 0] @ [2..<Suc (Suc (length s))]) (c # n # s) = n # c # s"
proof -
  define ax where "ax = [2..<Suc (Suc (length s))]"
  have len: "length ax = length s"
    unfolding ax_def upt_from2 by (simp del: upt_Suc)
  have up: "[0..<Suc (Suc (length ax))] = 0 # 1 # ax"
    unfolding len unfolding ax_def upt_from2
    by (simp add: upt_rec[of 0] upt_rec[of "Suc 0"] map_Suc_upt[symmetric] del: upt_Suc map_Suc_upt)
  have ij: "index_of ([1, 0] @ ax) j = j" if "j \<in> set ax" for j
  proof -
    from that have j: "2 \<le> j" "j < Suc (Suc (length s))" by (auto simp: ax_def)
    then have "index_of ax j = j - 2"
      unfolding ax_def by (rule index_of_upt)
    with j show ?thesis by simp
  qed
  have "map (\<lambda>j. (c # n # s) ! index_of ([1, 0] @ ax) j) ax = map (\<lambda>j. (c # n # s) ! j) ax"
    using ij by (intro map_cong) auto
  also have "\<dots> = s"
    unfolding ax_def by (rule map_nth_from2)
  finally have tail: "map (\<lambda>j. (c # n # s) ! index_of ([1, 0] @ ax) j) ax = s" .
  have "source_index ([1, 0] @ ax) (c # n # s) = n # c # s"
    unfolding source_index_def using tail by (simp add: up del: upt_Suc)
  then show ?thesis by (simp only: ax_def)
qed

lemma permuted_shape:
  "map (\<lambda>a. (n # c # rest) ! a) ([1, 0] @ [2..<Suc (Suc (length rest))]) = c # n # rest"
proof -
  have "map (\<lambda>a. (n # c # rest) ! a) [2..<Suc (Suc (length rest))] = rest"
    by (rule map_nth_from2)
  then show ?thesis by (simp del: upt_Suc)
qed

subsection \<open>The rows of a flattened tensor\<close>

lemma channel_pos_bounds:
  assumes "0 < S" "c < C"
  shows "(m div S) * (C * S) + c * S \<le> channel_pos C S c m"
    and "channel_pos C S c m < Suc (m div S) * (C * S)"
proof -
  show "(m div S) * (C * S) + c * S \<le> channel_pos C S c m"
    by (simp add: channel_pos_def)
  have "m mod S < S" using assms(1) by simp
  then have "c * S + m mod S < Suc c * S" by simp
  also have "\<dots> \<le> C * S" using assms(2) by (intro mult_le_mono1) simp
  finally have "c * S + m mod S < C * S" .
  then show "channel_pos C S c m < Suc (m div S) * (C * S)"
    by (simp add: channel_pos_def)
qed

lemma channel_pos_mono:
  assumes "0 < S" "c < C" "m < m'"
  shows "channel_pos C S c m < channel_pos C S c m'"
proof (cases "m div S = m' div S")
  case True
  have "m = (m div S) * S + m mod S" "m' = (m' div S) * S + m' mod S" by simp_all
  with True assms(3) have "m mod S < m' mod S" by (metis add_less_cancel_left)
  with True show ?thesis by (simp add: channel_pos_def)
next
  case False
  have "m div S \<le> m' div S" using assms(3) by (simp add: div_le_mono)
  with False have "Suc (m div S) \<le> m' div S" by simp
  then have "Suc (m div S) * (C * S) \<le> (m' div S) * (C * S)" by (rule mult_le_mono1)
  also have "\<dots> \<le> channel_pos C S c m'" by (simp add: channel_pos_def)
  finally show ?thesis using channel_pos_bounds(2)[OF assms(1,2), of m] by simp
qed

lemma channel_pos_channel:
  assumes "0 < S" "c < C"
  shows "(channel_pos C S c m mod (C * S)) div S = c"
proof -
  have b: "m mod S < S" using assms(1) by simp
  then have "c * S + m mod S < Suc c * S" by simp
  also have "\<dots> \<le> C * S" using assms(2) by (intro mult_le_mono1) simp
  finally have lt: "c * S + m mod S < C * S" .
  have "channel_pos C S c m = (c * S + m mod S) + (m div S) * (C * S)"
    by (simp add: channel_pos_def)
  then have "channel_pos C S c m mod (C * S) = c * S + m mod S"
    using lt by simp
  then show ?thesis using b assms(1) by simp
qed

lemma channel_pos_surj:
  assumes "0 < S" "k < N * (C * S)" "(k mod (C * S)) div S = c"
  shows "\<exists>m < N * S. channel_pos C S c m = k"
proof -
  define a where "a = k div (C * S)"
  define r where "r = k mod (C * S)"
  define b where "b = r mod S"
  have k: "k = a * (C * S) + r" unfolding a_def r_def by (rule div_mult_mod_eq[symmetric])
  have "r = (r div S) * S + r mod S" by (rule div_mult_mod_eq[symmetric])
  then have r: "r = c * S + b" using assms(3) by (simp only: r_def b_def)
  have aN: "a < N" unfolding a_def using assms(2) by (simp add: less_mult_imp_div_less)
  have bS: "b < S" unfolding b_def using assms(1) by simp
  let ?m = "a * S + b"
  have "?m < Suc a * S" using bS by simp
  also have "\<dots> \<le> N * S" using aN by (intro mult_le_mono1) simp
  finally have "?m < N * S" .
  moreover have "?m div S = a" "?m mod S = b" using bS by simp_all
  then have "channel_pos C S c ?m = k" by (simp add: channel_pos_def k r)
  ultimately show ?thesis by blast
qed

lemma channel_positions:
  assumes "0 < S" "c < C"
  shows "map (channel_pos C S c) [0..<N * S]
       = filter (\<lambda>k. (k mod (C * S)) div S = c) [0..<N * (C * S)]"
proof (rule sorted_distinct_set_unique)
  have "sorted_wrt (<) (map (channel_pos C S c) [0..<N * S])"
    unfolding sorted_wrt_map
    by (rule sorted_wrt_mono_rel[OF _ sorted_wrt_upt]) (use channel_pos_mono[OF assms] in auto)
  then show "sorted (map (channel_pos C S c) [0..<N * S])"
    and "distinct (map (channel_pos C S c) [0..<N * S])"
    by (simp_all add: strict_sorted_iff)
  show "sorted (filter (\<lambda>k. (k mod (C * S)) div S = c) [0..<N * (C * S)])"
    by (simp add: sorted_wrt_filter)
  show "distinct (filter (\<lambda>k. (k mod (C * S)) div S = c) [0..<N * (C * S)])"
    by simp
  show "set (map (channel_pos C S c) [0..<N * S])
      = set (filter (\<lambda>k. (k mod (C * S)) div S = c) [0..<N * (C * S)])"
  proof (intro set_eqI iffI)
    fix k assume "k \<in> set (map (channel_pos C S c) [0..<N * S])"
    then obtain m where m: "m < N * S" "k = channel_pos C S c m" by auto
    have "m div S < N" using m(1) by (simp add: less_mult_imp_div_less)
    then have "Suc (m div S) * (C * S) \<le> N * (C * S)" by (intro mult_le_mono1) simp
    then have "k < N * (C * S)"
      using channel_pos_bounds(2)[OF assms, of m] m(2) by simp
    then show "k \<in> set (filter (\<lambda>k. (k mod (C * S)) div S = c) [0..<N * (C * S)])"
      using channel_pos_channel[OF assms, of m] m(2) by simp
  next
    fix k assume "k \<in> set (filter (\<lambda>k. (k mod (C * S)) div S = c) [0..<N * (C * S)])"
    then have "k < N * (C * S)" "(k mod (C * S)) div S = c" by auto
    from channel_pos_surj[OF assms(1) this]
    show "k \<in> set (map (channel_pos C S c) [0..<N * S])" by auto
  qed
qed

lemma flatten_result:
  assumes sh: "shape p = N # C # rest" and fl: "flatten p = Inr f"
  shows "shape f = [C, N * prod_list rest]"
    and "data f = map (\<lambda>k. data p ! ravel (N # C # rest)
                      (source_index ([1, 0] @ [2..<Suc (Suc (length rest))])
                         (unravel (C # N # rest) k)))
                  [0..<C * (N * prod_list rest)]"
    and "C \<noteq> 0"
proof -
  have len: "length (shape p) = Suc (Suc (length rest))" by (simp add: sh)
  obtain tr where tr: "permute ([1, 0] @ [2..<Suc (Suc (length rest))]) p = Inr tr"
    and vr: "view_rows C tr = Inr f"
    using fl unfolding flatten_def len by (auto simp: sh Let_def split: sum.splits simp del: upt_Suc)
  have shtr: "shape tr = C # N # rest"
    and dtr: "data tr = map (\<lambda>k. data p ! ravel (N # C # rest)
                      (source_index ([1, 0] @ [2..<Suc (Suc (length rest))])
                         (unravel (C # N # rest) k)))
                  [0..<C * (N * prod_list rest)]"
    using tr permuted_shape[of N C rest] unfolding permute_def sh Let_def
    by (auto split: if_splits simp del: upt_Suc)
  have nm: "numel tr = C * (N * prod_list rest)" by (simp add: numel_def shtr)
  from vr show "C \<noteq> 0" unfolding view_rows_def by (auto split: if_splits)
  then have "numel tr div C = N * prod_list rest" by (simp add: nm)
  with vr show "shape f = [C, N * prod_list rest]"
    unfolding view_rows_def Let_def by (auto split: if_splits option.splits)
  from vr have "data f = data tr"
    unfolding view_rows_def Let_def by (auto split: if_splits option.splits)
  with dtr show "data f = map (\<lambda>k. data p ! ravel (N # C # rest)
                      (source_index ([1, 0] @ [2..<Suc (Suc (length rest))])
                         (unravel (C # N # rest) k)))
                  [0..<C * (N * prod_list rest)]" by simp
qed

lemma row_of_map:
  assumes "c < C"
  shows "take M (drop (c * M) (map g [0..<C * M])) = map (\<lambda>m. g (c * M + m)) [0..<M]"
proof -
  have "c * M + M \<le> C * M"
  proof -
    have "Suc c * M \<le> C * M" using assms by (intro mult_le_mono1) simp
    then show ?thesis by (simp add: add.commute)
  qed
  then have "take M [c * M..<C * M] = [c * M..<c * M + M]"
    by (simp add: take_upt)
  moreover have "[c * M..<c * M + M] = map (\<lambda>m. m + c * M) [0..<M]"
    using map_add_upt[of "c * M" M] by (simp add: add.commute)
  ultimately show ?thesis
    by (simp add: drop_map take_map comp_def add.commute del: upt_Suc)
qed

lemma flatten_rows:
  assumes sh: "shape p = N # C # rest" and fl: "flatten p = Inr f" and c: "c < C"
  shows "rows f ! c = channel_elems p c"
proof -
  define S where "S = prod_list rest"
  define M where "M = N * S"
  note fr = flatten_result[OF sh fl, folded S_def, folded M_def]
  have row: "rows f ! c = map (\<lambda>m. data p ! ravel (N # C # rest)
                      (source_index ([1, 0] @ [2..<Suc (Suc (length rest))])
                         (unravel (C # N # rest) (c * M + m)))) [0..<M]"
    unfolding rows_def using c fr(1) row_of_map[OF c, of M] by (simp add: fr(2) del: upt_Suc)
  have elem: "ravel (N # C # rest)
                      (source_index ([1, 0] @ [2..<Suc (Suc (length rest))])
                         (unravel (C # N # rest) (c * M + m))) = channel_pos C S c m"
    if m: "m < M" for m
  proof -
    have S0: "0 < S" using m by (cases S) (auto simp: M_def)
    have "unravel (C # N # rest) (c * M + m) = c # (m div S) # unravel rest (m mod S)"
      using m by (simp add: S_def[symmetric] M_def[symmetric])
    moreover have "source_index ([1, 0] @ [2..<Suc (Suc (length rest))])
        (c # (m div S) # unravel rest (m mod S)) = (m div S) # c # unravel rest (m mod S)"
      using source_index_swap[of "unravel rest (m mod S)" c "m div S"] by simp
    moreover have "ravel rest (unravel rest (m mod S)) = m mod S"
      using S0 by (intro ravel_unravel) (simp add: S_def)
    ultimately show ?thesis
      by (simp add: channel_pos_def S_def[symmetric])
  qed
  have "rows f ! c = map (\<lambda>m. data p ! channel_pos C S c m) [0..<M]"
    unfolding row using elem by (intro map_cong) auto
  also have "\<dots> = map (\<lambda>k. data p ! k) (map (channel_pos C S c) [0..<N * S])"
    by (simp add: M_def comp_def)
  also have "map (channel_pos C S c) [0..<N * S]
      = filter (\<lambda>k. (k mod (C * S)) div S = c) [0..<N * (C * S)]"
  proof (cases "S = 0")
    case True
    then show ?thesis by simp
  next
    case False
    then show ?thesis using channel_positions[of S c C N] c by simp
  qed
  also have "map (\<lambda>k. data p ! k) (filter (\<lambda>k. (k mod (C * S)) div S = c) [0..<N * (C * S)])
      = channel_elems p c"
    unfolding channel_elems_def numel_def sh by (simp add: S_def)
  finally show ?thesis .
qed

subsection \<open>The Dice coefficient per channel\<close>

lemma rows_elementwise:
  assumes "shape b = shape a"
  shows "rows (elementwise f a b) = map (\<lambda>c. map2 f (rows a ! c) (rows b ! c)) [0..<shape a ! 0]"
  unfolding rows_def elementwise_def using assms
  by (simp add: take_map drop_map take_zip drop_zip del: upt_Suc)

lemma sum_last_flattened:
  assumes fi: "flatten input = Inr fi" and ft: "flatten target = Inr ft"
    and sh: "shape input = shape target"
  shows "sum_last (elementwise f fi ft)
       = map (\<lambda>c. sum_list (map2 f (channel_elems input c) (channel_elems target c)))
             [0..<shape input ! 1]"
proof -
  from fi have "2 \<le> length (shape input)"
    unfolding flatten_def by (auto split: if_splits)
  then obtain N C rest where shi: "shape input = N # C # rest"
    by (cases "shape input"; cases "tl (shape input)") auto
  have sht: "shape target = N # C # rest" using sh shi by simp
  have same: "shape ft = shape fi"
    using flatten_result(1)[OF shi fi] flatten_result(1)[OF sht ft] by simp
  have C: "shape fi ! 0 = C" using flatten_result(1)[OF shi fi] by simp
  have ri: "\<And>c. c < C \<Longrightarrow> rows fi ! c = channel_elems input c"
    using flatten_rows[OF shi fi] .
  have rt: "\<And>c. c < C \<Longrightarrow> rows ft ! c = channel_elems target c"
    using flatten_rows[OF sht ft] .
  show ?thesis
    unfolding sum_last_def rows_elementwise[OF same] C
    using ri rt by (simp add: shi del: upt_Suc)
qed

lemma dice_formula:
  assumes "compute_per_channel_dice input target epsilon None weight = Inr r"
  shows "weight = None \<longrightarrow>
           r = map (\<lambda>c. dice_channel 1 (channel_elems input c) (channel_elems target c) epsilon)
                   [0..<shape input ! 1]"
    and "\<forall>w. weight = Some w \<and> length w = shape input ! 1 \<longrightarrow>
           r = map (\<lambda>c. dice_channel (w ! c) (channel_elems input c) (channel_elems target c) epsilon)
                   [0..<shape input ! 1]"
proof -
  from assms have sh: "shape input = shape target"
    unfolding compute_per_channel_dice_def by (auto split: if_splits)
  from assms obtain fi ft where fi: "flatten input = Inr fi" and ft: "flatten target = Inr ft"
    unfolding compute_per_channel_dice_def by (auto simp: Let_def split: if_splits sum.splits)
  note s = sum_last_flattened[OF fi ft sh]
  define C where "C = shape input ! 1"
  define I where "I = (\<lambda>c. sum_list (map2 (*) (channel_elems input c) (channel_elems target c)))"
  define D where "D = (\<lambda>c. sum_list (map2 (+) (channel_elems input c) (channel_elems target c)))"
  have si: "sum_last (elementwise (*) fi ft) = map I [0..<C]"
    and sd: "sum_last (elementwise (+) fi ft) = map D [0..<C]"
    using s[of "(*)"] s[of "(+)"] by (simp_all add: I_def D_def C_def)
  show "weight = None \<longrightarrow>
           r = map (\<lambda>c. dice_channel 1 (channel_elems input c) (channel_elems target c) epsilon)
                   [0..<shape input ! 1]"
  proof
    assume w: "weight = None"
    from assms have "r = map2 fdiv (map (\<lambda>x. 2 * x) (map I [0..<C])) (map (\<lambda>x. max x epsilon) (map D [0..<C]))"
      unfolding compute_per_channel_dice_def
      by (simp add: w sh fi ft si sd Let_def broadcast_def del: upt_Suc)
    then show "r = map (\<lambda>c. dice_channel 1 (channel_elems input c) (channel_elems target c) epsilon)
                   [0..<shape input ! 1]"
      by (simp add: map2_map_map dice_channel_def I_def D_def C_def comp_def del: upt_Suc)
  qed
  show "\<forall>w. weight = Some w \<and> length w = shape input ! 1 \<longrightarrow>
           r = map (\<lambda>c. dice_channel (w ! c) (channel_elems input c) (channel_elems target c) epsilon)
                   [0..<shape input ! 1]"
  proof (intro allI impI)
    fix w assume "weight = Some w \<and> length w = shape input ! 1"
    then have w: "weight = Some w" and lw: "length w = C" by (simp_all add: C_def)
    have wmap: "w = map (\<lambda>c. w ! c) [0..<C]" unfolding lw[symmetric] by (simp only: map_nth)
    have "map2 (*) w (map I [0..<C]) = map (\<lambda>c. w ! c * I c) [0..<C]"
      by (subst wmap) (simp add: map2_map_map del: upt_Suc)
    with assms have "r = map2 fdiv (map (\<lambda>x. 2 * x) (map (\<lambda>c. w ! c * I c) [0..<C]))
                        (map (\<lambda>x. max x epsilon) (map D [0..<C]))"
      unfolding compute_per_channel_dice_def
      by (simp add: w lw sh fi ft si sd Let_def broadcast_def del: upt_Suc)
    then show "r = map (\<lambda>c. dice_channel (w ! c) (channel_elems input c) (channel_elems target c) epsilon)
                   [0..<shape input ! 1]"
      by (simp add: map2_map_map dice_channel_def I_def D_def C_def comp_def del: upt_Suc)
  qed
qed

lemma binary_sum:
  assumes "list_all (\<lambda>x. x = 0 \<or> x = (1::rat)) xs"
  shows "sum_list (map2 (*) xs xs) = sum_list xs"
    and "sum_list (map2 (+) xs xs) = 2 * sum_list xs"
    and "1 \<in> set xs \<longrightarrow> 1 \<le> sum_list xs"
    and "1 \<notin> set xs \<longrightarrow> sum_list xs = 0"
  using assms by (induction xs) auto

lemma channel_elems_subset:
  assumes "length (data p) = numel p"
  shows "set (channel_elems p c) \<subseteq> set (data p)"
  using assms unfolding channel_elems_def by auto

lemma dice_channel_binary:
  assumes "list_all (\<lambda>x. x = 0 \<or> x = (1::rat)) xs" "0 < epsilon" "epsilon \<le> 2"
  shows "dice_channel 1 xs xs epsilon = (if 1 \<in> set xs then Fin 1 else Fin 0)"
proof (cases "1 \<in> set xs")
  case True
  then have "1 \<le> sum_list xs" using binary_sum(3)[OF assms(1)] by simp
  then have "max (2 * sum_list xs) epsilon = 2 * sum_list xs" "2 * sum_list xs \<noteq> 0"
    using assms(3) by auto
  then show ?thesis
    using True by (simp add: dice_channel_def binary_sum(1,2)[OF assms(1)] fdiv_def)
next
  case False
  then have "sum_list xs = 0" using binary_sum(4)[OF assms(1)] by simp
  then show ?thesis
    using False assms(2) by (simp add: dice_channel_def binary_sum(1,2)[OF assms(1)] fdiv_def)
qed

subsection \<open>One-hot expansion\<close>

text \<open>
  Claim C3 at a batch of two label images of one voxel, with the labels 0 and 1 and
  \<open>C = 2\<close>. \<^verbatim>\<open>input.unsqueeze(0)\<close> puts the batch on axis 1 of the index, so
  \<^verbatim>\<open>scatter_\<close> writes the labels of both images into the channels of image 0 and
  nothing into image 1: the channel sums are 2 and 0, not 1 and 1, and the argmax
  along the channels is 0 and 0, not the labels 0 and 1. For the single image
  \<open>labels1\<close> and \<open>C = 3\<close> the expansion is the one-hot image: the channel sums are all
  1 and the argmax gives the labels back.
\<close>

theorem expand_as_one_hot_two_images:
  "list_all (\<lambda>v. 0 \<le> v \<and> v < 2) (data labels2)
   \<and> length (shape labels2) = 4
   \<and> expand_as_one_hot labels2 2 None = Inr (contiguous [2, 2, 1, 1, 1] [1, 1, 0, 0])
   \<and> sum_axis1 (contiguous [2, 2, 1, 1, 1] [1, 1, 0, 0]) = [2, 0]
   \<and> argmax_axis1 (contiguous [2, 2, 1, 1, 1] [1, 1, 0, 0]) = [0, 0]
   \<and> map nat (data labels2) = [0, 1]
   \<and> expand_as_one_hot labels1 3 None
       = Inr (contiguous [1, 3, 1, 2, 2] [1, 0, 0, 0, 0, 0, 1, 1, 0, 1, 0, 0])
   \<and> sum_axis1 (contiguous [1, 3, 1, 2, 2] [1, 0, 0, 0, 0, 0, 1, 1, 0, 1, 0, 0]) = [1, 1, 1, 1]
   \<and> argmax_axis1 (contiguous [1, 3, 1, 2, 2] [1, 0, 0, 0, 0, 0, 1, 1, 0, 1, 0, 0])
       = map nat (data labels1)"
  by code_simp

subsection \<open>Per-channel Dice\<close>

text \<open>
  Claim C4 at freshly allocated tensors of two images with two channels of two voxels
  each, whatever their elements, \<open>epsilon\<close> and the weight: after the permutation of
  \<^verbatim>\<open>flatten\<close> the batch axis no longer merges with the spatial axes, so
  \<^verbatim>\<open>view(C, -1)\<close> raises RuntimeError and no score is returned. The same holds for an
  input of shape \<open>(2, 2, 2)\<close>.
\<close>

theorem compute_per_channel_dice_view_error:
  "compute_per_channel_dice (contiguous [2, 2, 1, 1, 2] xs) (contiguous [2, 2, 1, 1, 2] ys)
     epsilon None weight = Inl RuntimeError
   \<and> flatten (contiguous [2, 2, 2] xs) = Inl RuntimeError"
  by (simp add: compute_per_channel_dice_def contiguous_def flatten_def permute_def view_rows_def
      compute_stride_def numel_def Let_def upt_rec)

text \<open>
  Freshly allocated tensors with a single channel, or with a single image, are
  flattened without error whatever their other sizes: there the permuted axes still
  merge.
\<close>

lemma small_nat: "\<not> Suc 0 < (x::nat) \<Longrightarrow> x = 0 \<or> x = Suc 0"
  by auto

lemma flatten_single_channel:
  "\<exists>f. flatten (contiguous [N, 1, D, H, W] xs) = Inr f"
  by (auto simp: contiguous_def flatten_def permute_def view_rows_def
      compute_stride_def numel_def Let_def upt_rec max_def split: if_splits prod.splits
      dest!: small_nat)

lemma flatten_single_channel_2d:
  "\<exists>f. flatten (contiguous [N, 1, H, W] xs) = Inr f"
  by (auto simp: contiguous_def flatten_def permute_def view_rows_def
      compute_stride_def numel_def Let_def upt_rec max_def split: if_splits prod.splits
      dest!: small_nat)

lemma flatten_single_image:
  "0 < C \<Longrightarrow> \<exists>f. flatten (contiguous [1, C, D, H, W] xs) = Inr f"
  by (auto simp: contiguous_def flatten_def permute_def view_rows_def
      compute_stride_def numel_def Let_def upt_rec max_def split: if_splits prod.splits
      dest!: small_nat)

text \<open>
  Whenever \<^verbatim>\<open>compute_per_channel_dice\<close> returns (no \<^verbatim>\<open>ignore_index\<close>), the score of
  channel \<open>c\<close> is \<open>2 * sum(pred_c * target_c) / clamp(sum(pred_c + target_c), min=epsilon)\<close>
  over the elements of that channel, and a per-channel weight multiplies the
  intersection term only: the denominator is the same with and without it.
\<close>

theorem compute_per_channel_dice_formula:
  "compute_per_channel_dice input target epsilon None weight = Inr r \<longrightarrow>
     (weight = None \<longrightarrow>
        r = map (\<lambda>c. dice_channel 1 (channel_elems input c) (channel_elems target c) epsilon)
                [0..<shape input ! 1])
   \<and> (\<forall>w. weight = Some w \<and> length w = shape input ! 1 \<longrightarrow>
        r = map (\<lambda>c. dice_channel (w ! c) (channel_elems input c) (channel_elems target c) epsilon)
                [0..<shape input ! 1])"
  using dice_formula[of input target epsilon weight r] by blast

theorem compute_per_channel_dice_formula_witness:
  "compute_per_channel_dice mask12 mask12 (1 / 100000) None (Some [3, 5]) = Inr [Fin 3, Fin 0]
   \<and> length [3, 5 :: rat] = shape mask12 ! 1
   \<and> [Fin 3, Fin 0]
       = map (\<lambda>c. dice_channel ([3, 5] ! c) (channel_elems mask12 c) (channel_elems mask12 c)
                    (1 / 100000)) [0..<shape mask12 ! 1]"
proof -
  have h: "compute_per_channel_dice mask12 mask12 (1 / 100000) None (Some [3, 5])
      = Inr [Fin 3, Fin 0]"
    by code_simp
  have l: "length [3, 5 :: rat] = shape mask12 ! 1"
    by code_simp
  show ?thesis
    using h l compute_per_channel_dice_formula[of mask12 mask12 "1 / 100000" "Some [3, 5]"
        "[Fin 3, Fin 0]"]
    by blast
qed

text \<open>
  Claim C5, as the code has it. For a prediction and a target with the same elements,
  all of them 0 or 1, and \<open>0 < epsilon \<le> 2\<close>: whenever \<^verbatim>\<open>compute_per_channel_dice\<close>
  (no weights, no \<^verbatim>\<open>ignore_index\<close>) returns, the score is exactly 1 on every channel that
  contains a 1 and 0 on every channel that contains none.
\<close>

theorem dice_identical_binary:
  assumes "compute_per_channel_dice p t epsilon None None = Inr r"
    and "data t = data p"
    and "length (data p) = numel p"
    and "list_all (\<lambda>x. x = 0 \<or> x = 1) (data p)"
    and "0 < epsilon" and "epsilon \<le> 2"
  shows "r = map (\<lambda>c. if 1 \<in> set (channel_elems p c) then Fin 1 else Fin 0) [0..<shape p ! 1]"
proof -
  from assms(1) have sh: "shape p = shape t"
    unfolding compute_per_channel_dice_def by (auto split: if_splits)
  have same: "channel_elems t c = channel_elems p c" for c
    by (simp add: channel_elems_def numel_def sh assms(2))
  have bin: "list_all (\<lambda>x. x = 0 \<or> x = 1) (channel_elems p c)" for c
    using channel_elems_subset[OF assms(3), of c] assms(4) by (auto simp: list_all_iff)
  have "r = map (\<lambda>c. dice_channel 1 (channel_elems p c) (channel_elems t c) epsilon)
                   [0..<shape p ! 1]"
    using dice_formula(1)[OF assms(1)] by simp
  then show ?thesis
    using dice_channel_binary[OF bin assms(5,6)] by (simp add: same del: upt_Suc)
qed

theorem dice_identical_binary_witness:
  "compute_per_channel_dice mask12 mask12 (1 / 100000) None None = Inr [Fin 1, Fin 0]
   \<and> length (data mask12) = numel mask12
   \<and> list_all (\<lambda>x. x = 0 \<or> x = 1) (data mask12)
   \<and> (0::rat) < 1 / 100000 \<and> (1::rat) / 100000 \<le> 2
   \<and> [Fin 1, Fin 0]
       = map (\<lambda>c. if 1 \<in> set (channel_elems mask12 c) then Fin 1 else Fin 0)
             [0..<shape mask12 ! 1]"
proof -
  have h1: "compute_per_channel_dice mask12 mask12 (1 / 100000) None None = Inr [Fin 1, Fin 0]"
    by code_simp
  have h2: "length (data mask12) = numel mask12"
    by code_simp
  have h3: "list_all (\<lambda>x. x = 0 \<or> x = 1) (data mask12)"
    by code_simp
  have h4: "(0::rat) < 1 / 100000" and h5: "(1::rat) / 100000 \<le> 2"
    by simp_all
  show ?thesis
    using h1 h2 h3 h4 h5 dice_identical_binary[OF h1 refl h2 h3 h4 h5] by blast
qed

text \<open>
  The claim as stated fails for identical tensors that are not masks: with the one
  element 0.5 the score is 0.5, which is not within \<open>epsilon = 1e-5\<close> of 1; and for
  identical empty masks the score is 0.
\<close>

theorem dice_identical_counterexample:
  "compute_per_channel_dice (contiguous [1, 1, 1, 1, 1] [1 / 2]) (contiguous [1, 1, 1, 1, 1] [1 / 2])
     (1 / 100000) None None = Inr [Fin (1 / 2)]
   \<and> \<not> \<bar>(1::rat) / 2 - 1\<bar> \<le> 1 / 100000
   \<and> compute_per_channel_dice (contiguous [1, 1, 1, 1, 1] [0]) (contiguous [1, 1, 1, 1, 1] [0])
     (1 / 100000) None None = Inr [Fin 0]"
proof -
  have "compute_per_channel_dice (contiguous [1, 1, 1, 1, 1] [1 / 2])
      (contiguous [1, 1, 1, 1, 1] [1 / 2]) (1 / 100000) None None = Inr [Fin (1 / 2)]"
    by code_simp
  moreover have "compute_per_channel_dice (contiguous [1, 1, 1, 1, 1] [0])
      (contiguous [1, 1, 1, 1, 1] [0]) (1 / 100000) None None = Inr [Fin 0]"
    by code_simp
  moreover have "\<not> \<bar>(1::rat) / 2 - 1\<bar> \<le> 1 / 100000"
    by simp
  ultimately show ?thesis by blast
qed

end
